theory Spec2Isabelle
  imports Main "HOL-Library.Word"
begin

unbundle bit_operations_syntax

section \<open>The supervisor \<open>shimmy.c\<close> and its environment\<close>

text \<open>
  The program is a single C file. It talks to the operating system through libc calls
  only, so the model threads a record \<open>world\<close> through every function: the calls made so
  far with the answers they got, the C variable \<open>errno\<close>, the diagnostics printed on the
  standard error stream and the dispositions of the signals. What the operating system
  answers is not part of the program: it is a parameter \<open>env\<close>, a function of the calls
  made so far and of the call being made. Theorems quantify over every \<open>env\<close>.
  The program is modelled as built without \<open>DEBUG\<close> (the \<open>INFO\<close> macro is empty), and
  \<open>malloc\<close>, \<open>strdup\<close> and \<open>asprintf\<close> are taken to succeed.
\<close>

subsection \<open>Constants of the system headers (Linux)\<close>

definition EXIT_SUCCESS :: int where "EXIT_SUCCESS = 0"
definition EXIT_FAILURE :: int where "EXIT_FAILURE = 1"

definition SIGINT :: int where "SIGINT = 2"
definition SIGQUIT :: int where "SIGQUIT = 3"
definition SIGKILL :: int where "SIGKILL = 9"
definition SIGTERM :: int where "SIGTERM = 15"
definition SIGCHLD :: int where "SIGCHLD = 17"

definition EINTR :: int where "EINTR = 4"
definition ENOENT :: int where "ENOENT = 2"
definition ECHILD :: int where "ECHILD = 10"
definition EACCES :: int where "EACCES = 13"
definition EEXIST :: int where "EEXIST = 17"
definition EINVAL :: int where "EINVAL = 22"
definition ENOSPC :: int where "ENOSPC = 28"
definition EPERM :: int where "EPERM = 1"

definition STDIN_FILENO :: int where "STDIN_FILENO = 0"
definition STDOUT_FILENO :: int where "STDOUT_FILENO = 1"

definition POLLIN :: "16 word" where "POLLIN = 0x0001"
definition POLLERR :: "16 word" where "POLLERR = 0x0008"
definition POLLHUP :: "16 word" where "POLLHUP = 0x0010"
definition POLLNVAL :: "16 word" where "POLLNVAL = 0x0020"

definition CGROUP_MOUNT_PATH :: string where "CGROUP_MOUNT_PATH = ''/sys/fs/cgroup''"

text \<open>
  The wait status macros of \<open>sys/wait.h\<close> (glibc): a child has exited normally when the
  low seven bits of the status are zero, and its exit code is the second byte.
\<close>

definition WIFEXITED :: "32 word \<Rightarrow> bool" where
  "WIFEXITED status = (status AND 0x7f = 0)"

definition WEXITSTATUS :: "32 word \<Rightarrow> int" where
  "WEXITSTATUS status = uint (drop_bit 8 (status AND 0xff00))"

text \<open>
  How the kernel encodes what happened to a child in the status that \<open>wait\<close> stores:
  the exit code \<open>K\<close> (its low eight bits) in the second byte for a normal exit, the
  number of the signal (1 to 127 below the stop marker) in the low seven bits, with the
  core-dump flag \<open>0x80\<close>, for a death by signal.
\<close>

datatype child_outcome = ChildExited nat | ChildSignaled nat bool

fun wstatus :: "child_outcome \<Rightarrow> 32 word" where
  "wstatus (ChildExited K) = push_bit 8 (word_of_nat K AND 0xff)"
| "wstatus (ChildSignaled sig core) = word_of_nat sig OR (if core then 0x80 else 0)"

subsection \<open>Data of the program\<close>

text \<open>\<open>struct controller_var\<close>; the \<open>next\<close> pointer is the tail of the list that holds it.\<close>

record controller_var =
  key :: string
  val :: string

text \<open>
  \<open>struct controller_info\<close>. A \<open>char *\<close> that can be \<open>NULL\<close> is a \<open>string option\<close>; the
  linked list of variables is a list, head first, and so is the list of controllers
  that the global \<open>controllers\<close> points to.
\<close>

record controller_info =
  name :: string
  path :: "string option"
  procfile :: "string option"
  vars :: "controller_var list"

text \<open>The global variables set while the options are read.\<close>

record globals =
  controllers :: "controller_info list"
  cgroup_path :: "string option"
  brutal_kill_wait_us :: int
  run_as_uid :: "32 word"
  run_as_gid :: "32 word"
  signal_pipe :: "int \<times> int"

definition initial_globals :: globals where
  "initial_globals =
     \<lparr>controllers = [], cgroup_path = None, brutal_kill_wait_us = 1000,
      run_as_uid = 0, run_as_gid = 0, signal_pipe = (-1, -1)\<rparr>"

text \<open>\<open>struct pollfd\<close>.\<close>

record pollfd =
  fd :: int
  events :: "16 word"
  revents :: "16 word"

subsection \<open>Calls, answers and the world\<close>

text \<open>
  The calls of the program, with their arguments. A stream is named by the path it was
  opened on. \<open>Mkdir\<close> is always called with the mode \<open>0755\<close>; \<open>Fprintf_d\<close> is
  \<open>fprintf(fp, "%d", pid)\<close>; \<open>Poll\<close> carries the array, \<open>nfds\<close> and the timeout; \<open>Read\<close>
  reads one \<open>int\<close> from a descriptor and \<open>Write\<close> writes one.
\<close>

datatype syscall =
    Mkdir string
  | Rmdir "string option"
  | Fopen "string option" string
  | Fwrite "string option" string
  | Fprintf_d "string option" int
  | Fclose "string option"
  | Kill int int
  | Usleep int
  | Fork
  | Getpid
  | Setgid "32 word"
  | Setuid "32 word"
  | Execvp string "string list"
  | Pipe
  | Poll "pollfd list" nat int
  | Read int
  | Write int int
  | Wait

text \<open>
  An answer of the operating system.
  \<^item> \<open>Ret v\<close>: the call succeeds and returns \<open>v\<close> (a count, a process id, the value
    read; a stream that is not \<open>NULL\<close>).
  \<^item> \<open>Fail e\<close>: the call fails (\<open>-1\<close>, \<open>NULL\<close> or a short count) and sets \<open>errno\<close> to \<open>e\<close>.
  \<^item> \<open>Pids ps\<close>: a stream opened for reading on which the successive \<open>fscanf("%d")\<close>
    yield the numbers \<open>ps\<close> and then fail.
  \<^item> \<open>Fds r w\<close>: the two descriptors of a new pipe.
  \<^item> \<open>Conds cs\<close>: for \<open>poll\<close>, the conditions that hold on each descriptor.
  \<^item> \<open>Waited p s\<close>: \<open>wait\<close> reaps the process \<open>p\<close> and stores the status \<open>s\<close>.
  \<^item> \<open>Never\<close>: a blocking call (\<open>poll\<close>, \<open>wait\<close>) does not return.
\<close>

datatype sysres =
    Ret int
  | Fail int
  | Pids "int list"
  | Fds int int
  | Conds "(int \<times> 16 word) list"
  | Waited int "32 word"
  | Never

type_synonym event = "syscall \<times> sysres"

type_synonym env = "event list \<Rightarrow> syscall \<Rightarrow> sysres"

text \<open>The messages of \<open>err\<close>, \<open>errx\<close>, \<open>warn\<close> and \<open>warnx\<close>, with their arguments.\<close>

datatype diag =
    AlreadyExists string
  | CouldntCreate string int
  | ErrorWriting string string int
  | CantAddPid string int
  | SetgidFailed "32 word" int
  | SetuidFailed "32 word" int
  | PipeFailed int
  | PollFailed int
  | ReadFailed int
  | UnexpectedSignal int int
  | FailedToKill
  | WriteSignalPipe int
  | OnlyOnePath
  | NoControllerBeforeSet
  | NoEqualSign string
  | NoProgram
  | NoPath
  | NoController
  | MemoryFault

datatype disposition = SIG_DFL | Handler

record world =
  trace :: "event list"
  errno :: int
  stderr :: "diag list"
  sigdisp :: "int \<Rightarrow> disposition"

definition initial_world :: world where
  "initial_world = \<lparr>trace = [], errno = 0, stderr = [], sigdisp = (\<lambda>_. SIG_DFL)\<rparr>"

definition calls :: "world \<Rightarrow> syscall list" where
  "calls w = map fst (trace w)"

text \<open>One call: the environment answers, the call is recorded, a failure sets \<open>errno\<close>.\<close>

definition sys :: "env \<Rightarrow> syscall \<Rightarrow> world \<Rightarrow> sysres \<times> world" where
  "sys env c w =
     (let r = env (trace w) c
      in (r, w\<lparr>trace := trace w @ [(c, r)],
                errno := (case r of Fail e \<Rightarrow> e | _ \<Rightarrow> errno w)\<rparr>))"

text \<open>
  The return value of a call that returns \<open>-1\<close> on failure; for \<open>wait\<close> it is the process
  reaped. An answer of a kind that the call cannot give counts as 0.
\<close>

fun ret :: "sysres \<Rightarrow> int" where
  "ret (Ret v) = v"
| "ret (Fail e) = -1"
| "ret (Waited p s) = p"
| "ret _ = 0"

text \<open>
  Whether a call that returns a pointer returned \<open>NULL\<close>; also whether \<open>execvp\<close>
  returned at all, which it does only to report a failure.
\<close>

fun is_null :: "sysres \<Rightarrow> bool" where
  "is_null (Fail e) = True"
| "is_null _ = False"

text \<open>The environment answers a sequence of calls, one after the other, from a history on.\<close>

fun answers :: "env \<Rightarrow> event list \<Rightarrow> event list \<Rightarrow> bool" where
  "answers env h [] = True"
| "answers env h ((c, r) # es) = (env h c = r \<and> answers env (h @ [(c, r)]) es)"

definition warn :: "diag \<Rightarrow> world \<Rightarrow> world" where
  "warn d w = w\<lparr>stderr := stderr w @ [d]\<rparr>"

text \<open>\<open>printf("%s")\<close> of a \<open>char *\<close>: glibc prints a null pointer as \<open>(null)\<close>.\<close>

fun fmt_s :: "string option \<Rightarrow> string" where
  "fmt_s None = ''(null)''"
| "fmt_s (Some s) = s"

text \<open>
  \<open>sigaction(signum, act, oldact)\<close> of POSIX: a new action is installed only when \<open>act\<close> is
  not a null pointer; with a null \<open>act\<close> the disposition of the signal is left as it is.
\<close>

definition sigaction :: "int \<Rightarrow> disposition option \<Rightarrow> world \<Rightarrow> world" where
  "sigaction signum act w =
     (case act of None \<Rightarrow> w | Some a \<Rightarrow> w\<lparr>sigdisp := (sigdisp w)(signum := a)\<rparr>)"

subsection \<open>The controller store\<close>

text \<open>\<open>add_controller\<close>: the new record becomes the head of the list and is returned.\<close>

definition add_controller :: "string \<Rightarrow> globals \<Rightarrow> globals" where
  "add_controller nm g =
     g\<lparr>controllers :=
         \<lparr>name = nm, path = None, procfile = None, vars = []\<rparr> # controllers g\<rparr>"

text \<open>\<open>add_controller_setting\<close>: the new variable becomes the head of the controller's list.\<close>

definition add_controller_setting ::
  "controller_info \<Rightarrow> string \<Rightarrow> string \<Rightarrow> controller_info" where
  "add_controller_setting controller k v =
     controller\<lparr>vars := \<lparr>key = k, val = v\<rparr> # vars controller\<rparr>"

text \<open>
  The options \<open>-p\<close>, \<open>-c\<close> and \<open>-s\<close> of the loop over \<open>getopt_long\<close> in \<open>main\<close>. The pointer
  \<open>current_controller\<close> is \<open>NULL\<close> until the first \<open>-c\<close> and then always the record that
  the last \<open>add_controller\<close> returned, which is the head of \<open>controllers\<close>; the setting is
  stored through that pointer, so in the head of the list. \<open>strchr\<close> finds the first
  \<open>=\<close>: the key is what stands before it, the value what stands after it.
\<close>

datatype option_arg = OptP string | OptC string | OptS string

fun process_option :: "option_arg \<Rightarrow> globals \<Rightarrow> diag + globals" where
  "process_option (OptP optarg) g =
     (if cgroup_path g \<noteq> None then Inl OnlyOnePath
      else Inr (g\<lparr>cgroup_path := Some optarg\<rparr>))"
| "process_option (OptC optarg) g = Inr (add_controller optarg g)"
| "process_option (OptS optarg) g =
     (case controllers g of
        [] \<Rightarrow> Inl NoControllerBeforeSet
      | current_controller # rest \<Rightarrow>
          if CHR ''='' \<notin> set optarg then Inl (NoEqualSign optarg)
          else Inr (g\<lparr>controllers :=
                 add_controller_setting current_controller
                   (takeWhile (\<lambda>c. c \<noteq> CHR ''='') optarg)
                   (tl (dropWhile (\<lambda>c. c \<noteq> CHR ''='') optarg)) # rest\<rparr>))"

fun process_options :: "option_arg list \<Rightarrow> globals \<Rightarrow> diag + globals" where
  "process_options [] g = Inr g"
| "process_options (opt # opts) g =
     (case process_option opt g of
        Inl d \<Rightarrow> Inl d
      | Inr g' \<Rightarrow> process_options opts g')"

text \<open>\<open>finish_controller_init\<close>: the two paths of every controller.\<close>

definition finish_controller_init :: "globals \<Rightarrow> globals" where
  "finish_controller_init g =
     g\<lparr>controllers :=
         map (\<lambda>controller.
                controller\<lparr>path := Some (CGROUP_MOUNT_PATH @ ''/'' @ name controller @ ''/''
                                          @ fmt_s (cgroup_path g)),
                           procfile := Some (CGROUP_MOUNT_PATH @ ''/'' @ name controller @ ''/''
                                          @ fmt_s (cgroup_path g) @ ''/cgroup.procs'')\<rparr>)
             (controllers g)\<rparr>"

subsection \<open>Creating the cgroups\<close>

text \<open>
  The status of a call that returns \<open>0\<close> on success and \<open>-1\<close> on failure: only the
  answer \<open>Fail\<close> is a failure.
\<close>

fun rc0 :: "sysres \<Rightarrow> int" where
  "rc0 (Fail e) = -1"
| "rc0 _ = 0"

text \<open>
  The loop of \<open>mkdir_p\<close> over \<open>buf\<close>, the copy of \<open>abspath\<close> that the C code calls \<open>path\<close>.
  \<open>buf[i]\<close> is the character at \<open>i\<close> below the length of the string and the terminating
  zero at the length; the string cut at \<open>i\<close> is \<open>take i buf\<close>.
  Past the terminator the C code reads memory that is not the string's: no result.
\<close>

function mkdir_p_loop ::
  "env \<Rightarrow> string \<Rightarrow> nat \<Rightarrow> int \<Rightarrow> int \<Rightarrow> world \<Rightarrow> int option \<times> world" where
  "mkdir_p_loop env buf i rc last_errno w =
     (if length buf < i then (None, w)
      else if i = length buf \<or> buf ! i = CHR ''/'' then
        (let (r, w1) = sys env (Mkdir (take i buf)) w;
             rc1 = rc0 r;
             last_errno1 = (if rc1 < 0 then errno w1 else last_errno)
         in if i = length buf then (Some rc1, w1\<lparr>errno := last_errno1\<rparr>)
            else mkdir_p_loop env buf (Suc i) rc1 last_errno1 w1)
      else mkdir_p_loop env buf (Suc i) rc last_errno w)"
  by pat_completeness auto
termination
  by (relation "measure (\<lambda>(env, buf, i, rc, last_errno, w). Suc (length buf) - i)") auto

declare mkdir_p_loop.simps [simp del]

definition mkdir_p :: "env \<Rightarrow> string \<Rightarrow> nat \<Rightarrow> world \<Rightarrow> int option \<times> world" where
  "mkdir_p env abspath start_index w = mkdir_p_loop env abspath start_index 0 0 w"

fun create_cgroups ::
  "env \<Rightarrow> controller_info list \<Rightarrow> world \<Rightarrow> (diag + unit) \<times> world" where
  "create_cgroups env [] w = (Inr (), w)"
| "create_cgroups env (controller # rest) w =
     (let start_index = length CGROUP_MOUNT_PATH + 1 + length (name controller) + 1
      in case path controller of
           None \<Rightarrow> (Inl MemoryFault, w)
         | Some p \<Rightarrow>
             (case mkdir_p env p start_index w of
                (None, w1) \<Rightarrow> (Inl MemoryFault, w1)
              | (Some rc, w1) \<Rightarrow>
                  if rc < 0 then
                    (if errno w1 = EEXIST then (Inl (AlreadyExists p), w1)
                     else (Inl (CouldntCreate p (errno w1)), w1))
                  else create_cgroups env rest w1))"

subsection \<open>Writing the settings\<close>

text \<open>
  \<open>fwrite\<close> returns a \<open>size_t\<close>: the number of items written, at most the number asked
  for, and fewer (down to none) when the write fails.
\<close>

fun fwrite_count :: "sysres \<Rightarrow> string \<Rightarrow> nat" where
  "fwrite_count (Ret n) v = min (nat n) (length v)"
| "fwrite_count _ v = 0"

text \<open>\<open>write_file\<close>; \<open>int rc = fwrite(...)\<close> converts the \<open>size_t\<close> to a 32-bit \<open>int\<close>.\<close>

definition write_file :: "env \<Rightarrow> string \<Rightarrow> string \<Rightarrow> world \<Rightarrow> int \<times> world" where
  "write_file env file v w =
     (let (fp, w1) = sys env (Fopen (Some file) ''w'') w
      in if is_null fp then (-1, w1)
         else
           (let (r, w2) = sys env (Fwrite (Some file) v) w1;
                rc = sint (word_of_nat (fwrite_count r v) :: 32 word);
                (c, w3) = sys env (Fclose (Some file)) w2
            in (rc, w3)))"

text \<open>The inner loop of \<open>update_cgroup_settings\<close>, over the variables of one controller.\<close>

fun write_vars ::
  "env \<Rightarrow> controller_info \<Rightarrow> controller_var list \<Rightarrow> world \<Rightarrow> (diag + unit) \<times> world" where
  "write_vars env controller [] w = (Inr (), w)"
| "write_vars env controller (var # rest) w =
     (let setting_file = fmt_s (path controller) @ ''/'' @ key var;
          (rc, w1) = write_file env setting_file (val var) w
      in if rc < 0 then (Inl (ErrorWriting (val var) setting_file (errno w1)), w1)
         else write_vars env controller rest w1)"

fun update_cgroup_settings ::
  "env \<Rightarrow> controller_info list \<Rightarrow> world \<Rightarrow> (diag + unit) \<times> world" where
  "update_cgroup_settings env [] w = (Inr (), w)"
| "update_cgroup_settings env (controller # rest) w =
     (case write_vars env controller (vars controller) w of
        (Inl d, w1) \<Rightarrow> (Inl d, w1)
      | (Inr u, w1) \<Rightarrow> update_cgroup_settings env rest w1)"

subsection \<open>Members of the cgroups\<close>

fun move_pid_to_cgroups ::
  "env \<Rightarrow> controller_info list \<Rightarrow> int \<Rightarrow> world \<Rightarrow> (diag + unit) \<times> world" where
  "move_pid_to_cgroups env [] pid w = (Inr (), w)"
| "move_pid_to_cgroups env (controller # rest) pid w =
     (let (fp, w1) = sys env (Fopen (procfile controller) ''w'') w
      in if is_null fp then (Inl (CantAddPid (fmt_s (procfile controller)) (errno w1)), w1)
         else
           (let (r, w2) = sys env (Fprintf_d (procfile controller) pid) w1
            in if ret r < 0
               then (Inl (CantAddPid (fmt_s (procfile controller)) (errno w2)), w2)
               else
                 (let (c, w3) = sys env (Fclose (procfile controller)) w2
                  in move_pid_to_cgroups env rest pid w3)))"

fun destroy_cgroups :: "env \<Rightarrow> controller_info list \<Rightarrow> world \<Rightarrow> world" where
  "destroy_cgroups env [] w = w"
| "destroy_cgroups env (controller # rest) w =
     destroy_cgroups env rest (snd (sys env (Rmdir (path controller)) w))"

text \<open>The numbers that the successive \<open>fscanf(fp, "%d", &pid)\<close> read from a stream.\<close>

fun scanned :: "sysres \<Rightarrow> int list" where
  "scanned (Pids ps) = ps"
| "scanned _ = []"

text \<open>
  The loop \<open>while (fscanf(...) == 1) kill(pid, sig)\<close> in the supervisor, whose own
  process id is in no membership file: it makes the cgroups itself and never attaches
  itself, so every \<open>kill\<close> returns. This function and the four that follow are the
  supervisor's; the same code in a process that can be among the members is
  \<open>kill_pids_as\<close> and what follows it.
\<close>

fun kill_pids :: "env \<Rightarrow> int list \<Rightarrow> int \<Rightarrow> world \<Rightarrow> world" where
  "kill_pids env [] sig w = w"
| "kill_pids env (pid # pids) sig w = kill_pids env pids sig (snd (sys env (Kill pid sig) w))"

definition procfile_killall :: "env \<Rightarrow> string option \<Rightarrow> int \<Rightarrow> world \<Rightarrow> world" where
  "procfile_killall env file sig w =
     (let (fp, w1) = sys env (Fopen file ''r'') w
      in if is_null fp then w1
         else snd (sys env (Fclose file) (kill_pids env (scanned fp) sig w1)))"

definition procfile_has_processes :: "env \<Rightarrow> string option \<Rightarrow> world \<Rightarrow> bool \<times> world" where
  "procfile_has_processes env file w =
     (let (fp, w1) = sys env (Fopen file ''r'') w
      in if is_null fp then (False, w1)
         else
           (let rc = (if scanned fp = [] then 0 else 1 :: int);
                (c, w2) = sys env (Fclose file) w1
            in (rc = 1, w2)))"

fun kill_children :: "env \<Rightarrow> controller_info list \<Rightarrow> int \<Rightarrow> world \<Rightarrow> world" where
  "kill_children env [] sig w = w"
| "kill_children env (controller # rest) sig w =
     kill_children env rest sig (procfile_killall env (procfile controller) sig w)"

fun child_processes_exist :: "env \<Rightarrow> controller_info list \<Rightarrow> world \<Rightarrow> bool \<times> world" where
  "child_processes_exist env [] w = (False, w)"
| "child_processes_exist env (controller # rest) w =
     (case procfile_has_processes env (procfile controller) w of
        (True, w1) \<Rightarrow> (True, w1)
      | (False, w1) \<Rightarrow> child_processes_exist env rest w1)"

subsection \<open>Teardown\<close>

text \<open>
  The two loops \<open>while (retries > 0 && child_processes_exist())\<close> of \<open>cleanup\<close>: the first
  sleeps a millisecond after each round of kills, the second does not. The result is
  the value of \<open>retries\<close> when the loop ends.
\<close>

fun kill_retry ::
  "env \<Rightarrow> controller_info list \<Rightarrow> bool \<Rightarrow> nat \<Rightarrow> world \<Rightarrow> nat \<times> world" where
  "kill_retry env cs sleep 0 w = (0, w)"
| "kill_retry env cs sleep (Suc retries) w =
     (case child_processes_exist env cs w of
        (False, w1) \<Rightarrow> (Suc retries, w1)
      | (True, w1) \<Rightarrow>
          (let w2 = kill_children env cs SIGKILL w1;
               w3 = (if sleep then snd (sys env (Usleep 1000) w2) else w2)
           in kill_retry env cs sleep retries w3))"

definition cleanup :: "env \<Rightarrow> globals \<Rightarrow> world \<Rightarrow> world" where
  "cleanup env g w =
     (let w1 = sigaction SIGCHLD None w;
          w2 = sigaction SIGINT None w1;
          w3 = sigaction SIGQUIT None w2;
          w4 = sigaction SIGTERM None w3;
          (retries, w5) = kill_retry env (controllers g) True 10 w4;
          w6 = (if retries = 0 then
                  (let (retries2, w') = kill_retry env (controllers g) False 10 w5
                   in if retries2 = 0 then warn FailedToKill w' else w')
                else w5)
      in destroy_cgroups env (controllers g) w6)"

subsection \<open>How a process ends\<close>

text \<open>
  What becomes of a process: it exits with a status, it is killed by a signal, its image
  is replaced by the program it executes, it stays blocked in \<open>poll\<close> or in \<open>wait\<close>, it
  dies of a memory fault, or (the model's loop only) it is still in the loop when the
  fuel runs out.
\<close>

datatype proc_result =
    Exited int
  | Killed int
  | Execed string "string list"
  | BlockedInPoll
  | BlockedInWait
  | Crashed
  | Running

text \<open>
  \<open>exit(status)\<close> in the supervisor once \<open>atexit(cleanup)\<close> is registered: \<open>cleanup\<close> runs,
  then the process ends with the status.
\<close>

definition exit_proc :: "env \<Rightarrow> globals \<Rightarrow> int \<Rightarrow> world \<Rightarrow> proc_result \<times> world" where
  "exit_proc env g status w = (Exited status, cleanup env g w)"

text \<open>
  \<open>err(EXIT_FAILURE, ...)\<close> and \<open>errx(EXIT_FAILURE, ...)\<close> in the supervisor: the message,
  then \<open>exit\<close>.
\<close>

definition fatal :: "env \<Rightarrow> globals \<Rightarrow> diag \<Rightarrow> world \<Rightarrow> proc_result \<times> world" where
  "fatal env g d w =
     (case d of
        MemoryFault \<Rightarrow> (Crashed, w)
      | _ \<Rightarrow> exit_proc env g EXIT_FAILURE (warn d w))"

subsection \<open>Teardown in a process that can be a member of the cgroups\<close>

text \<open>
  The child made by \<open>fork\<close> inherits the registration of \<open>cleanup\<close>, and once it has
  attached itself its own process id is in the membership files. \<open>self\<close> is the id of
  the calling process when it is known (the child knows it from \<open>getpid\<close>), and \<open>None\<close> in
  the supervisor. \<open>SIGKILL\<close> sent to the caller's own id kills the caller: the call is
  made, it never returns (the answer recorded is \<open>Never\<close>) and nothing follows it. The
  result is \<open>Inl\<close> of the world in which the process died, or \<open>Inr\<close> of what the function
  returns.
\<close>

fun kill_pids_as :: "int option \<Rightarrow> env \<Rightarrow> int list \<Rightarrow> int \<Rightarrow> world \<Rightarrow> world + world" where
  "kill_pids_as self env [] sig w = Inr w"
| "kill_pids_as self env (pid # pids) sig w =
     (if self = Some pid \<and> sig = SIGKILL
      then Inl (w\<lparr>trace := trace w @ [(Kill pid sig, Never)]\<rparr>)
      else kill_pids_as self env pids sig (snd (sys env (Kill pid sig) w)))"

definition procfile_killall_as ::
  "int option \<Rightarrow> env \<Rightarrow> string option \<Rightarrow> int \<Rightarrow> world \<Rightarrow> world + world" where
  "procfile_killall_as self env file sig w =
     (let (fp, w1) = sys env (Fopen file ''r'') w
      in if is_null fp then Inr w1
         else
           (case kill_pids_as self env (scanned fp) sig w1 of
              Inl dead \<Rightarrow> Inl dead
            | Inr w2 \<Rightarrow> Inr (snd (sys env (Fclose file) w2))))"

fun kill_children_as ::
  "int option \<Rightarrow> env \<Rightarrow> controller_info list \<Rightarrow> int \<Rightarrow> world \<Rightarrow> world + world" where
  "kill_children_as self env [] sig w = Inr w"
| "kill_children_as self env (controller # rest) sig w =
     (case procfile_killall_as self env (procfile controller) sig w of
        Inl dead \<Rightarrow> Inl dead
      | Inr w1 \<Rightarrow> kill_children_as self env rest sig w1)"

fun kill_retry_as ::
  "int option \<Rightarrow> env \<Rightarrow> controller_info list \<Rightarrow> bool \<Rightarrow> nat \<Rightarrow> world
     \<Rightarrow> world + nat \<times> world" where
  "kill_retry_as self env cs sleep 0 w = Inr (0, w)"
| "kill_retry_as self env cs sleep (Suc retries) w =
     (case child_processes_exist env cs w of
        (False, w1) \<Rightarrow> Inr (Suc retries, w1)
      | (True, w1) \<Rightarrow>
          (case kill_children_as self env cs SIGKILL w1 of
             Inl dead \<Rightarrow> Inl dead
           | Inr w2 \<Rightarrow>
               (let w3 = (if sleep then snd (sys env (Usleep 1000) w2) else w2)
                in kill_retry_as self env cs sleep retries w3)))"

definition cleanup_as :: "int option \<Rightarrow> env \<Rightarrow> globals \<Rightarrow> world \<Rightarrow> world + world" where
  "cleanup_as self env g w =
     (let w1 = sigaction SIGCHLD None w;
          w2 = sigaction SIGINT None w1;
          w3 = sigaction SIGQUIT None w2;
          w4 = sigaction SIGTERM None w3
      in case kill_retry_as self env (controllers g) True 10 w4 of
           Inl dead \<Rightarrow> Inl dead
         | Inr (retries, w5) \<Rightarrow>
             (case (if retries = 0 then
                      (case kill_retry_as self env (controllers g) False 10 w5 of
                         Inl dead \<Rightarrow> Inl dead
                       | Inr (retries2, w') \<Rightarrow>
                           Inr (if retries2 = 0 then warn FailedToKill w' else w'))
                    else Inr w5) of
                Inl dead \<Rightarrow> Inl dead
              | Inr w6 \<Rightarrow> Inr (destroy_cgroups env (controllers g) w6)))"

text \<open>
  \<open>exit(status)\<close> with \<open>cleanup\<close> registered, and \<open>err\<close> and \<open>errx\<close>, in such a process: when
  \<open>cleanup\<close> kills the caller the process ends by \<open>SIGKILL\<close> and not with the status.
\<close>

definition exit_proc_as ::
  "int option \<Rightarrow> env \<Rightarrow> globals \<Rightarrow> int \<Rightarrow> world \<Rightarrow> proc_result \<times> world" where
  "exit_proc_as self env g status w =
     (case cleanup_as self env g w of
        Inl dead \<Rightarrow> (Killed SIGKILL, dead)
      | Inr w' \<Rightarrow> (Exited status, w'))"

definition fatal_as ::
  "int option \<Rightarrow> env \<Rightarrow> globals \<Rightarrow> diag \<Rightarrow> world \<Rightarrow> proc_result \<times> world" where
  "fatal_as self env g d w =
     (case d of
        MemoryFault \<Rightarrow> (Crashed, w)
      | _ \<Rightarrow> exit_proc_as self env g EXIT_FAILURE (warn d w))"

subsection \<open>The signal handler\<close>

definition sigchild_handler :: "env \<Rightarrow> globals \<Rightarrow> int \<Rightarrow> world \<Rightarrow> world" where
  "sigchild_handler env g signum w =
     (if 0 \<le> snd (signal_pipe g) then
        (let (r, w1) = sys env (Write (snd (signal_pipe g)) signum) w
         in if ret r < 0 then warn (WriteSignalPipe (errno w1)) w1 else w1)
      else w)"

text \<open>
  The delivery of a signal to the supervisor: the handler runs when one is installed
  for the signal; the default action is not modelled.
\<close>

definition deliver :: "env \<Rightarrow> globals \<Rightarrow> int \<Rightarrow> world \<Rightarrow> world" where
  "deliver env g signum w =
     (case sigdisp w signum of
        Handler \<Rightarrow> sigchild_handler env g signum w
      | SIG_DFL \<Rightarrow> w)"

subsection \<open>Launching the child\<close>

text \<open>
  \<open>fork_exec\<close>. \<open>fork\<close> returns \<open>0\<close> in the child, and there the function never returns:
  the result is \<open>Inl\<close> of what became of the child. In the parent it is \<open>Inr\<close> of the
  value that \<open>fork\<close> returned. \<open>execvp\<close> returns only when it fails. The child's own
  process id is what \<open>getpid\<close> returned, so its \<open>exit\<close> is \<open>exit_proc_as\<close> with that id.
\<close>

definition fork_exec ::
  "env \<Rightarrow> globals \<Rightarrow> string \<Rightarrow> string list \<Rightarrow> world \<Rightarrow> (proc_result + int) \<times> world" where
  "fork_exec env g program argv w =
     (let (f, w1) = sys env Fork w;
          pid = ret f
      in if pid = 0 then
           (let (me, w2) = sys env Getpid w1;
                self = Some (ret me)
            in case move_pid_to_cgroups env (controllers g) (ret me) w2 of
                 (Inl d, w3) \<Rightarrow> (let (res, w') = fatal_as self env g d w3 in (Inl res, w'))
               | (Inr u, w3) \<Rightarrow>
                   (let (sg, w4) = (if 0 < run_as_gid g
                                    then sys env (Setgid (run_as_gid g)) w3 else (Ret 0, w3))
                    in if 0 < run_as_gid g \<and> rc0 sg < 0
                       then (let (res, w') =
                                   fatal_as self env g (SetgidFailed (run_as_gid g) (errno w4)) w4
                             in (Inl res, w'))
                       else
                         (let (su, w5) = (if 0 < run_as_uid g
                                          then sys env (Setuid (run_as_uid g)) w4 else (Ret 0, w4))
                          in if 0 < run_as_uid g \<and> rc0 su < 0
                             then (let (res, w') =
                                         fatal_as self env g
                                           (SetuidFailed (run_as_uid g) (errno w5)) w5
                                   in (Inl res, w'))
                             else
                               (let (x, w6) = sys env (Execvp program argv) w5
                                in if is_null x
                                   then (let (res, w') = exit_proc_as self env g EXIT_FAILURE w6
                                         in (Inl res, w'))
                                   else (Inl (Execed program argv), w6)))))
         else (Inr pid, w1))"

subsection \<open>The supervision loop\<close>

definition kill_child_nicely :: "env \<Rightarrow> globals \<Rightarrow> int \<Rightarrow> world \<Rightarrow> world" where
  "kill_child_nicely env g child w =
     (let w1 = snd (sys env (Kill child SIGTERM) w);
          w2 = (if 0 < brutal_kill_wait_us g
                then snd (sys env (Usleep (brutal_kill_wait_us g)) w1) else w1)
      in snd (sys env (Kill child SIGKILL) w2))"

text \<open>
  \<open>poll(fds, nfds, timeout)\<close> on the array \<open>struct pollfd fds[3]\<close>, a triple. The kernel looks
  at the first \<open>nfds\<close> entries only and writes their \<open>revents\<close>: the conditions that hold
  on the descriptor, among those asked for in \<open>events\<close> and the three that are always
  reported; an entry with a negative descriptor gets \<open>0\<close>. The other entries are not
  touched. The call returns the number of entries with a non-zero \<open>revents\<close>; with a
  negative timeout it does not return while there is none. On failure nothing is
  written.
\<close>

definition cond_of :: "(int \<times> 16 word) list \<Rightarrow> int \<Rightarrow> 16 word" where
  "cond_of cs d = (case map_of cs d of None \<Rightarrow> 0 | Some c \<Rightarrow> c)"

definition polled :: "(int \<times> 16 word) list \<Rightarrow> nat \<Rightarrow> nat \<Rightarrow> pollfd \<Rightarrow> pollfd" where
  "polled cs nfds i p =
     (if i < nfds then
        p\<lparr>revents := (if fd p < 0 then 0
                       else cond_of cs (fd p) AND (events p OR POLLERR OR POLLHUP OR POLLNVAL))\<rparr>
      else p)"

fun conds_of :: "sysres \<Rightarrow> (int \<times> 16 word) list" where
  "conds_of (Conds cs) = cs"
| "conds_of _ = []"

definition poll ::
  "env \<Rightarrow> pollfd \<times> pollfd \<times> pollfd \<Rightarrow> nat \<Rightarrow> int \<Rightarrow> world
     \<Rightarrow> (int option \<times> (pollfd \<times> pollfd \<times> pollfd)) \<times> world" where
  "poll env fds nfds timeout w =
     (case fds of (f0, f1, f2) \<Rightarrow>
        (let (r, w1) = sys env (Poll [f0, f1, f2] nfds timeout) w
         in case r of
              Fail e \<Rightarrow> ((Some (-1), fds), w1)
            | Never \<Rightarrow> ((None, fds), w1)
            | _ \<Rightarrow>
                (let g0 = polled (conds_of r) nfds 0 f0;
                     g1 = polled (conds_of r) nfds 1 f1;
                     g2 = polled (conds_of r) nfds 2 f2;
                     n = length (filter (\<lambda>p. revents p \<noteq> 0) (take nfds [g0, g1, g2]))
                 in if n = 0 \<and> timeout < 0 then ((None, fds), w1)
                    else ((Some (int n), (g0, g1, g2)), w1))))"

text \<open>
  One turn of the loop \<open>for (;;)\<close> of \<open>main\<close>: the loop goes on with the array as \<open>poll\<close>
  left it, or is left by \<open>break\<close>, or the process ends there. \<open>read\<close> on the pipe returns
  the whole \<open>int\<close> that one run of the handler wrote (the process holds the write end
  itself, so there is no end of file). \<open>status\<close> is not initialised: when \<open>wait\<close> fails it
  holds \<open>junk_status\<close>.
\<close>

datatype loop_ctl = Continue "pollfd \<times> pollfd \<times> pollfd" | Break | Stop proc_result

definition loop_body ::
  "env \<Rightarrow> globals \<Rightarrow> 32 word \<Rightarrow> int \<Rightarrow> pollfd \<times> pollfd \<times> pollfd \<Rightarrow> world
     \<Rightarrow> loop_ctl \<times> world" where
  "loop_body env g junk_status pid fds w =
     (case poll env fds 2 (-1) w of
        ((None, fds1), w1) \<Rightarrow> (Stop BlockedInPoll, w1)
      | ((Some n, fds1), w1) \<Rightarrow>
          if n < 0 then
            (if errno w1 = EINTR then (Continue fds1, w1)
             else (let (res, w') = fatal env g (PollFailed (errno w1)) w1 in (Stop res, w')))
          else if revents (fst fds1) \<noteq> 0 then (Break, kill_child_nicely env g pid w1)
          else if revents (snd (snd fds1)) \<noteq> 0 then (Break, kill_child_nicely env g pid w1)
          else if revents (fst (snd fds1)) \<noteq> 0 then
            (let (r, w2) = sys env (Read (fst (signal_pipe g))) w1;
                 amt = (if rc0 r < 0 then - 1 else 4 :: int);
                 signal = ret r
             in if amt < 0 then
                  (let (res, w') = fatal env g (ReadFailed (errno w2)) w2 in (Stop res, w'))
                else if signal = SIGCHLD then
                  (let (wr, w3) = sys env Wait w2
                   in case wr of
                        Never \<Rightarrow> (Stop BlockedInWait, w3)
                      | _ \<Rightarrow>
                          (let dying_pid = ret wr;
                               status = (case wr of Waited p s \<Rightarrow> s | _ \<Rightarrow> junk_status)
                           in if dying_pid = pid then
                                (let exit_status =
                                       (if WIFEXITED status then WEXITSTATUS status
                                        else EXIT_FAILURE);
                                     (res, w') = exit_proc env g exit_status w3
                                 in (Stop res, w'))
                              else (Continue fds1, w3)))
                else if signal = SIGTERM \<or> signal = SIGQUIT \<or> signal = SIGINT then
                  (let (res, w') = exit_proc env g EXIT_FAILURE w2 in (Stop res, w'))
                else
                  (let (res, w') = fatal env g (UnexpectedSignal signal (errno w2)) w2
                   in (Stop res, w')))
          else (Continue fds1, w1))"

text \<open>
  The loop, for at most \<open>fuel\<close> turns; after the loop, \<open>exit(EXIT_SUCCESS)\<close>.
\<close>

fun main_loop ::
  "nat \<Rightarrow> env \<Rightarrow> globals \<Rightarrow> 32 word \<Rightarrow> int \<Rightarrow> pollfd \<times> pollfd \<times> pollfd \<Rightarrow> world
     \<Rightarrow> proc_result \<times> world" where
  "main_loop 0 env g junk_status pid fds w = (Running, w)"
| "main_loop (Suc fuel) env g junk_status pid fds w =
     (case loop_body env g junk_status pid fds w of
        (Continue fds1, w1) \<Rightarrow> main_loop fuel env g junk_status pid fds1 w1
      | (Break, w1) \<Rightarrow> exit_proc env g EXIT_SUCCESS w1
      | (Stop res, w1) \<Rightarrow> (res, w1))"

text \<open>
  The array \<open>fds\<close> as \<open>main\<close> fills it: the descriptors and the events asked for. The
  fields \<open>revents\<close> are not initialised: they hold whatever the stack held, \<open>junk\<close>.
\<close>

definition main_fds :: "globals \<Rightarrow> 16 word \<times> 16 word \<times> 16 word \<Rightarrow> pollfd \<times> pollfd \<times> pollfd" where
  "main_fds g junk =
     (\<lparr>fd = STDIN_FILENO, events = POLLHUP, revents = fst junk\<rparr>,
      \<lparr>fd = fst (signal_pipe g), events = POLLIN, revents = fst (snd junk)\<rparr>,
      \<lparr>fd = STDOUT_FILENO, events = POLLHUP, revents = snd (snd junk)\<rparr>)"

text \<open>
  \<open>main\<close> from the end of the loop over the options on (line 420): the three checks of
  the configuration, \<open>finish_controller_init\<close>, the pipe, the four handlers,
  \<open>atexit(cleanup)\<close>, the cgroups and their settings, the child and the loop. \<open>argv\<close>
  is what is left of the command line after the options: the program and its arguments.
  Before \<open>atexit\<close> a fatal error ends the process without \<open>cleanup\<close>.
\<close>

definition main ::
  "nat \<Rightarrow> env \<Rightarrow> globals \<Rightarrow> 16 word \<times> 16 word \<times> 16 word \<Rightarrow> 32 word \<Rightarrow> string list \<Rightarrow> world
     \<Rightarrow> proc_result \<times> world" where
  "main fuel env g0 junk junk_status argv w0 =
     (case argv of
        [] \<Rightarrow> (Exited EXIT_FAILURE, warn NoProgram w0)
      | program # args \<Rightarrow>
          if cgroup_path g0 = None \<and> controllers g0 \<noteq> []
          then (Exited EXIT_FAILURE, warn NoPath w0)
          else if cgroup_path g0 \<noteq> None \<and> controllers g0 = []
          then (Exited EXIT_FAILURE, warn NoController w0)
          else
            (let g1 = finish_controller_init g0;
                 (p, w1) = sys env Pipe w0
             in if rc0 p < 0 then (Exited EXIT_FAILURE, warn (PipeFailed (errno w1)) w1)
                else
                  (let g = g1\<lparr>signal_pipe :=
                                (case p of Fds r wr \<Rightarrow> (r, wr) | _ \<Rightarrow> signal_pipe g1)\<rparr>;
                       w2 = sigaction SIGCHLD (Some Handler) w1;
                       w3 = sigaction SIGINT (Some Handler) w2;
                       w4 = sigaction SIGQUIT (Some Handler) w3;
                       w5 = sigaction SIGTERM (Some Handler) w4
                   in case create_cgroups env (controllers g) w5 of
                        (Inl d, w6) \<Rightarrow> fatal env g d w6
                      | (Inr u, w6) \<Rightarrow>
                          (case update_cgroup_settings env (controllers g) w6 of
                             (Inl d, w7) \<Rightarrow> fatal env g d w7
                           | (Inr u, w7) \<Rightarrow>
                               (case fork_exec env g program argv w7 of
                                  (Inl res, w8) \<Rightarrow> (res, w8)
                                | (Inr pid, w8) \<Rightarrow>
                                    main_loop fuel env g junk_status pid (main_fds g junk) w8)))))"

section \<open>What the specification says, and example environments\<close>

text \<open>
  The exit code that the specification gives the supervisor for an outcome of the child:
  the child's own code after a normal exit, the generic failure status after a death by
  signal.
\<close>

fun spec_exit_code :: "child_outcome \<Rightarrow> int" where
  "spec_exit_code (ChildExited K) = int K"
| "spec_exit_code (ChildSignaled sig core) = EXIT_FAILURE"

text \<open>The outcomes that the kernel reports: exit codes of eight bits, signals 1 to 127.\<close>

fun kernel_outcome :: "child_outcome \<Rightarrow> bool" where
  "kernel_outcome (ChildExited K) = (K < 256)"
| "kernel_outcome (ChildSignaled sig core) = (0 < sig \<and> sig < 128)"

text \<open>
  An environment in which only the relay (descriptor 5) is readable, \<open>read\<close> yields a
  given signal number and \<open>wait\<close> gives a given answer; every other call fails.
\<close>

definition relay_env :: "int \<Rightarrow> sysres \<Rightarrow> env" where
  "relay_env signal reaped h c =
     (case c of
        Poll fds nfds timeout \<Rightarrow> Conds [(5, POLLIN)]
      | Read d \<Rightarrow> Ret signal
      | Wait \<Rightarrow> reaped
      | _ \<Rightarrow> Fail ENOENT)"

definition example_globals :: globals where
  "example_globals = initial_globals\<lparr>signal_pipe := (5, 6)\<rparr>"

text \<open>
  An environment in which \<open>poll\<close> finds a hangup on one descriptor and nothing else, and
  every other call succeeds.
\<close>

definition hangup_env :: "int \<Rightarrow> env" where
  "hangup_env d h c =
     (case c of
        Poll fds nfds timeout \<Rightarrow> Conds [(d, POLLHUP)]
      | _ \<Rightarrow> Ret 0)"

text \<open>The calls of a turn of the loop that reads \<open>SIGCHLD\<close> from the relay, with their answers.\<close>

definition example_turn :: "sysres \<Rightarrow> event list" where
  "example_turn wr =
     [(Poll [\<lparr>fd = 0, events = POLLHUP, revents = 0\<rparr>,
             \<lparr>fd = 5, events = POLLIN, revents = 0\<rparr>,
             \<lparr>fd = 1, events = POLLHUP, revents = 0\<rparr>] 2 (- 1), Conds [(5, POLLIN)]),
      (Read 5, Ret SIGCHLD),
      (Wait, wr)]"

section \<open>Notions used in the statements\<close>

text \<open>The calls that the teardown makes.\<close>

fun teardown_call :: "syscall \<Rightarrow> bool" where
  "teardown_call (Fopen file mode) = (mode = ''r'')"
| "teardown_call (Fclose file) = True"
| "teardown_call (Kill p sig) = True"
| "teardown_call (Usleep us) = True"
| "teardown_call (Rmdir dir) = True"
| "teardown_call _ = False"

text \<open>
  A later world of the same process, reached by calls of the teardown: calls and
  diagnostics are only added, and the dispositions of the signals are the same.
\<close>

definition extends :: "world \<Rightarrow> world \<Rightarrow> bool" where
  "extends w w' =
     (sigdisp w' = sigdisp w
      \<and> (\<exists>es. trace w' = trace w @ es \<and> list_all (\<lambda>e. teardown_call (fst e)) es)
      \<and> (\<exists>ds. stderr w' = stderr w @ ds))"

text \<open>The world after some calls, the last of them with the answer \<open>wr\<close>.\<close>

definition after_wait :: "world \<Rightarrow> event list \<Rightarrow> sysres \<Rightarrow> world" where
  "after_wait w es wr =
     w\<lparr>trace := trace w @ es, errno := (case wr of Fail e \<Rightarrow> e | _ \<Rightarrow> errno w)\<rparr>"

text \<open>
  An environment for a whole run of \<open>main\<close>: the pipe gets the descriptors 5 and 6, the
  child is process 42, then the relay is readable and \<open>read\<close> yields a given signal
  number; every other call succeeds.
\<close>

definition run_env :: "int \<Rightarrow> env" where
  "run_env signal h c =
     (case c of
        Pipe \<Rightarrow> Fds 5 6
      | Fork \<Rightarrow> Ret 42
      | Poll fds nfds timeout \<Rightarrow> Conds [(5, POLLIN)]
      | Read d \<Rightarrow> Ret signal
      | _ \<Rightarrow> Ret 0)"

text \<open>
  The calls of a teardown that finds no member: one attempt to open each membership
  file, then one \<open>rmdir\<close> for each controller.
\<close>

definition probes :: "globals \<Rightarrow> syscall list" where
  "probes g = map (\<lambda>c. Fopen (procfile c) ''r'') (controllers g)"

definition removals :: "globals \<Rightarrow> syscall list" where
  "removals g = map (\<lambda>c. Rmdir (path c)) (controllers g)"

text \<open>An environment in which nothing exists any more: every call fails with \<open>ENOENT\<close>.\<close>

definition gone_env :: env where
  "gone_env h c = Fail ENOENT"

definition cpu_globals :: globals where
  "cpu_globals =
     initial_globals\<lparr>controllers :=
       [\<lparr>name = ''cpu'', path = Some ''/sys/fs/cgroup/cpu/box'',
         procfile = Some ''/sys/fs/cgroup/cpu/box/cgroup.procs'', vars = []\<rparr>],
       cgroup_path := Some ''box''\<rparr>"

text \<open>The calls, with their answers, made between a world and a later one.\<close>

definition new_events :: "world \<Rightarrow> world \<Rightarrow> event list" where
  "new_events w w' = drop (length (trace w)) (trace w')"

text \<open>
  An environment for the child of \<open>fork\<close>: \<open>fork\<close> returns 0 and \<open>getpid\<close> returns 43; a
  membership file that is read lists the child, 43; the calls in the table get the
  answers given there; every other call succeeds.
\<close>

definition child_env :: "(syscall \<times> sysres) list \<Rightarrow> env" where
  "child_env table h c =
     (case map_of table c of
        Some r \<Rightarrow> r
      | None \<Rightarrow>
          (case c of
             Getpid \<Rightarrow> Ret 43
           | Fopen file mode \<Rightarrow> (if mode = ''r'' then Pids [43] else Ret 0)
           | _ \<Rightarrow> Ret 0))"

text \<open>
  The globals of a run with one cgroup \<open>/sys/fs/cgroup/cpu/box\<close>, the group 100 and the
  user 1000.
\<close>

definition drop_globals :: globals where
  "drop_globals =
     initial_globals\<lparr>controllers :=
       [\<lparr>name = ''cpu'', path = Some ''/sys/fs/cgroup/cpu/box'',
         procfile = Some ''/sys/fs/cgroup/cpu/box/cgroup.procs'', vars = []\<rparr>],
       cgroup_path := Some ''box'', run_as_uid := 1000, run_as_gid := 100\<rparr>"

text \<open>
  The directories that \<open>mkdir_p\<close> tries to make for a path from an index on: the path
  cut before each \<open>/\<close> at or after the index, then the whole path.
\<close>

definition cuts :: "string \<Rightarrow> nat \<Rightarrow> string list" where
  "cuts p i = map (\<lambda>j. take j p) (filter (\<lambda>j. p ! j = CHR ''/'') [i..<length p])"

definition segments :: "string \<Rightarrow> nat \<Rightarrow> string list" where
  "segments p i = cuts p i @ [p]"

text \<open>
  An environment for \<open>mkdir\<close>: the answers to the directories listed in a table; every
  other call succeeds.
\<close>

definition mkdir_env :: "(string \<times> sysres) list \<Rightarrow> env" where
  "mkdir_env table h c =
     (case c of
        Mkdir d \<Rightarrow> (case map_of table d of Some r \<Rightarrow> r | None \<Rightarrow> Ret 0)
      | _ \<Rightarrow> Ret 0)"

definition nested_controller :: controller_info where
  "nested_controller =
     \<lparr>name = ''cpu'', path = Some ''/sys/fs/cgroup/cpu/a/b'',
      procfile = Some ''/sys/fs/cgroup/cpu/a/b/cgroup.procs'', vars = []\<rparr>"

text \<open>
  An environment for the writing of a setting: \<open>fopen\<close> and \<open>fclose\<close> succeed, and \<open>fwrite\<close>
  gets a given answer.
\<close>

definition fwrite_env :: "sysres \<Rightarrow> env" where
  "fwrite_env r h c = (case c of Fwrite file v \<Rightarrow> r | _ \<Rightarrow> Ret 0)"

definition memory_controller :: controller_info where
  "memory_controller =
     \<lparr>name = ''memory'', path = Some ''/sys/fs/cgroup/memory/box'',
      procfile = Some ''/sys/fs/cgroup/memory/box/cgroup.procs'',
      vars = [\<lparr>key = ''memory.limit_in_bytes'', val = ''lots''\<rparr>]\<rparr>"

section \<open>Declaration order\<close>

text \<open>
  What the command line declares, in the order of the command line: each controller
  (\<open>-c\<close>) with the settings (\<open>-s key=value\<close>) that follow it, each list in the order
  of declaration. This follows the words of the specification, not the code.
\<close>

type_synonym decl = "string \<times> (string \<times> string) list"

definition setting_of :: "string \<Rightarrow> string \<times> string" where
  "setting_of optarg =
     (takeWhile (\<lambda>c. c \<noteq> CHR ''='') optarg, tl (dropWhile (\<lambda>c. c \<noteq> CHR ''='') optarg))"

fun add_decl :: "decl list \<Rightarrow> option_arg \<Rightarrow> decl list" where
  "add_decl ds (OptC n) = ds @ [(n, [])]"
| "add_decl ds (OptS optarg) =
     (if ds = [] then []
      else butlast ds @ [(fst (last ds), snd (last ds) @ [setting_of optarg])])"
| "add_decl ds (OptP p) = ds"

definition declared :: "option_arg list \<Rightarrow> decl list" where
  "declared opts = foldl add_decl [] opts"

text \<open>The declarations in reverse order, the settings of each in reverse order too.\<close>

definition reversed :: "decl list \<Rightarrow> decl list" where
  "reversed ds = rev (map (\<lambda>(n, kvs). (n, rev kvs)) ds)"

text \<open>
  What the store holds, in the order in which \<open>FOREACH_CONTROLLER\<close> and the loop over
  \<open>vars\<close> go through it.
\<close>

definition store :: "globals \<Rightarrow> decl list" where
  "store g = map (\<lambda>c. (name c, map (\<lambda>v. (key v, val v)) (vars c))) (controllers g)"

text \<open>The directory of a controller, and the calls of each operation for one controller.\<close>

definition cgroup_dir :: "string \<Rightarrow> string \<Rightarrow> string" where
  "cgroup_dir frag n = CGROUP_MOUNT_PATH @ ''/'' @ n @ ''/'' @ frag"

definition mkdir_calls :: "string \<Rightarrow> decl \<Rightarrow> syscall list" where
  "mkdir_calls frag d =
     map Mkdir (segments (cgroup_dir frag (fst d))
                  (length CGROUP_MOUNT_PATH + 1 + length (fst d) + 1))"

definition setting_calls :: "string \<Rightarrow> decl \<Rightarrow> syscall list" where
  "setting_calls frag d =
     concat (map (\<lambda>(k, v). [Fopen (Some (cgroup_dir frag (fst d) @ ''/'' @ k)) ''w'',
                             Fwrite (Some (cgroup_dir frag (fst d) @ ''/'' @ k)) v,
                             Fclose (Some (cgroup_dir frag (fst d) @ ''/'' @ k))])
                 (snd d))"

definition attach_calls :: "string \<Rightarrow> int \<Rightarrow> decl \<Rightarrow> syscall list" where
  "attach_calls frag pid d =
     [Fopen (Some (cgroup_dir frag (fst d) @ ''/cgroup.procs'')) ''w'',
      Fprintf_d (Some (cgroup_dir frag (fst d) @ ''/cgroup.procs'')) pid,
      Fclose (Some (cgroup_dir frag (fst d) @ ''/cgroup.procs''))]"

fun is_open :: "syscall \<Rightarrow> bool" where
  "is_open (Fopen file mode) = True"
| "is_open _ = False"

text \<open>A command line with two controllers and three settings; an environment where every call succeeds.\<close>

definition example_options :: "option_arg list" where
  "example_options =
     [OptC ''cpu'', OptS ''cpu.shares=512'', OptP ''box'',
      OptC ''memory'', OptS ''memory.limit_in_bytes=1000'', OptS ''memory.swappiness=0'']"

definition ok_env :: env where
  "ok_env h c = Ret 0"

definition example_parsed :: globals where
  "example_parsed =
     initial_globals
       \<lparr>controllers :=
          [\<lparr>name = ''memory'', path = None, procfile = None,
            vars = [\<lparr>key = ''memory.swappiness'', val = ''0''\<rparr>,
                    \<lparr>key = ''memory.limit_in_bytes'', val = ''1000''\<rparr>]\<rparr>,
           \<lparr>name = ''cpu'', path = None, procfile = None,
            vars = [\<lparr>key = ''cpu.shares'', val = ''512''\<rparr>]\<rparr>],
        cgroup_path := Some ''box''\<rparr>"

section \<open>Properties\<close>

subsection \<open>Wait statuses\<close>

lemma c7f: "(0x7f :: 32 word) = mask 7"
  by (simp add: mask_eq_exp_minus_1)

lemma cff: "(0xff :: 32 word) = mask 8"
  by (simp add: mask_eq_exp_minus_1)

lemma cff00: "(0xff00 :: 32 word) = push_bit 8 (mask 8)"
  by (simp add: mask_eq_exp_minus_1)

lemma c80: "(0x80 :: 32 word) = push_bit 7 1"
  by simp

lemma WIFEXITED_exited: "WIFEXITED (wstatus (ChildExited K))"
  unfolding WIFEXITED_def wstatus.simps c7f cff
  by (rule bit_word_eqI) (auto simp: bit_simps)

lemma WEXITSTATUS_exited: "WEXITSTATUS (wstatus (ChildExited K)) = int (K mod 256)"
proof -
  have "drop_bit 8 (push_bit 8 (word_of_nat K AND mask 8) AND push_bit 8 (mask 8 :: 32 word))
          = word_of_nat K AND mask 8"
    by (rule bit_word_eqI) (auto simp: bit_simps)
  moreover have "uint (word_of_nat K AND mask 8 :: 32 word) = int (K mod 256)"
  proof -
    have "(word_of_nat K AND mask 8 :: 32 word) = word_of_nat (take_bit 8 K)"
      by (simp add: take_bit_of_nat flip: take_bit_eq_mask)
    then show ?thesis
      by (simp add: unsigned_of_nat take_bit_eq_mod)
  qed
  ultimately show ?thesis
    unfolding WEXITSTATUS_def wstatus.simps cff cff00 by simp
qed

lemma not_WIFEXITED_signaled:
  assumes "0 < sig" "sig < 128"
  shows "\<not> WIFEXITED (wstatus (ChildSignaled sig core))"
proof
  assume "WIFEXITED (wstatus (ChildSignaled sig core))"
  then have "(word_of_nat sig OR (if core then push_bit 7 1 else 0)) AND (mask 7 :: 32 word) = 0"
    unfolding WIFEXITED_def wstatus.simps c7f c80 .
  then have "word_of_nat sig AND (mask 7 :: 32 word) = 0"
    by (auto simp: bit_eq_iff bit_simps)
  then have "2 ^ 7 dvd unat (word_of_nat sig :: 32 word)"
    by (simp only: and_mask_dvd_nat)
  moreover have "unat (word_of_nat sig :: 32 word) = sig"
    using assms by (simp add: unat_of_nat)
  ultimately have "(128::nat) dvd sig" by simp
  with assms show False by (auto dest: dvd_imp_le)
qed

subsection \<open>One turn of the loop when only the relay is readable\<close>

lemma polled_beyond: "nfds \<le> i \<Longrightarrow> polled cs nfds i p = p"
  by (simp add: polled_def)

lemma take_2_of_3: "take 2 [a, b, c] = [a, b]"
  by (simp add: numeral_2_eq_2)

lemma loop_body_sigchld:
  assumes turn: "answers env (trace w)
           [(Poll [f0, f1, f2] 2 (- 1), Conds cs),
            (Read (fst (signal_pipe g)), Ret SIGCHLD),
            (Wait, wr)]"
    and stdin: "revents (polled cs 2 0 f0) = 0"
    and relay: "revents (polled cs 2 1 f1) \<noteq> 0"
    and stale: "revents f2 = 0"
  shows "loop_body env g junk_status pid (f0, f1, f2) w =
           (let w3 = after_wait w [(Poll [f0, f1, f2] 2 (- 1), Conds cs),
                                   (Read (fst (signal_pipe g)), Ret SIGCHLD),
                                   (Wait, wr)] wr;
                status = (case wr of Waited p s \<Rightarrow> s | _ \<Rightarrow> junk_status)
            in if wr = Never then (Stop BlockedInWait, w3)
               else if ret wr = pid
               then (Stop (Exited (if WIFEXITED status then WEXITSTATUS status
                                   else EXIT_FAILURE)),
                     cleanup env g w3)
               else (Continue (polled cs 2 0 f0, polled cs 2 1 f1, f2), w3))"
  using assms unfolding after_wait_def
  by (cases wr)
     (simp_all add: loop_body_def poll_def sys_def exit_proc_def Let_def polled_beyond take_2_of_3)

subsection \<open>The exit code of the supervisor\<close>

text \<open>
  Claim C3. When the supervisor reads a child-termination signal from the relay and
  \<open>wait\<close> reaps the tracked child, the supervisor exits with the child's exit code \<open>K\<close>
  if the child exited normally with \<open>K\<close>, and with \<open>EXIT_FAILURE\<close> if the child was
  killed by a signal. The turn of the loop that handles the signal is the one in which
  \<open>poll\<close> reports the relay readable and no hangup of the standard input, with the third
  entry of the array, which \<open>poll\<close> is not asked to look at, holding no event.
\<close>

theorem exit_code_follows_child:
  assumes turn: "answers env (trace w)
           [(Poll [f0, f1, f2] 2 (- 1), Conds cs),
            (Read (fst (signal_pipe g)), Ret SIGCHLD),
            (Wait, Waited pid (wstatus outcome))]"
    and stdin: "revents (polled cs 2 0 f0) = 0"
    and relay: "revents (polled cs 2 1 f1) \<noteq> 0"
    and stale: "revents f2 = 0"
    and outcome: "kernel_outcome outcome"
  shows "fst (main_loop (Suc fuel) env g junk_status pid (f0, f1, f2) w)
           = Exited (spec_exit_code outcome)"
proof -
  have "fst (loop_body env g junk_status pid (f0, f1, f2) w) =
          Stop (Exited (if WIFEXITED (wstatus outcome) then WEXITSTATUS (wstatus outcome)
                        else EXIT_FAILURE))"
    using loop_body_sigchld [OF turn stdin relay stale, of junk_status pid]
    by (simp add: Let_def)
  moreover have "(if WIFEXITED (wstatus outcome) then WEXITSTATUS (wstatus outcome)
                  else EXIT_FAILURE) = spec_exit_code outcome"
  proof (cases outcome)
    case (ChildExited K)
    with outcome show ?thesis
      by (simp only: WIFEXITED_exited WEXITSTATUS_exited) simp
  next
    case (ChildSignaled sig core)
    with outcome show ?thesis
      by (simp add: not_WIFEXITED_signaled del: wstatus.simps)
  qed
  ultimately show ?thesis
    by (cases "loop_body env g junk_status pid (f0, f1, f2) w") simp
qed

theorem exit_code_follows_child_witness:
  "fst (main_loop (Suc 0) (relay_env SIGCHLD (Waited 42 (wstatus (ChildExited 3))))
          example_globals 0 42 (main_fds example_globals (0, 0, 0)) initial_world)
     = Exited 3
   \<and> fst (main_loop (Suc 0) (relay_env SIGCHLD (Waited 42 (wstatus (ChildSignaled 9 False))))
          example_globals 0 42 (main_fds example_globals (0, 0, 0)) initial_world)
     = Exited EXIT_FAILURE"
proof -
  let ?f0 = "\<lparr>fd = STDIN_FILENO, events = POLLHUP, revents = 0\<rparr>"
  let ?f1 = "\<lparr>fd = 5, events = POLLIN, revents = 0\<rparr>"
  let ?f2 = "\<lparr>fd = STDOUT_FILENO, events = POLLHUP, revents = 0\<rparr>"
  have fds: "main_fds example_globals (0, 0, 0) = (?f0, ?f1, ?f2)"
    by (simp add: main_fds_def example_globals_def initial_globals_def)
  have stdin: "revents (polled [(5, POLLIN)] 2 0 ?f0) = 0"
    by (simp add: polled_def cond_of_def STDIN_FILENO_def)
  have relay: "revents (polled [(5, POLLIN)] 2 1 ?f1) \<noteq> 0"
    by (simp add: polled_def cond_of_def POLLIN_def POLLERR_def POLLHUP_def POLLNVAL_def)
  have turn: "answers (relay_env SIGCHLD (Waited 42 (wstatus oc))) (trace initial_world)
           [(Poll [?f0, ?f1, ?f2] 2 (- 1), Conds [(5, POLLIN)]),
            (Read (fst (signal_pipe example_globals)), Ret SIGCHLD),
            (Wait, Waited 42 (wstatus oc))]" for oc
    by (simp add: relay_env_def)
  show ?thesis
    using exit_code_follows_child [OF turn stdin relay, of "ChildExited 3" 0 0]
      exit_code_follows_child [OF turn stdin relay, of "ChildSignaled 9 False" 0 0]
    by (simp add: fds)
qed

subsection \<open>Calls are only added\<close>

lemma extends_refl [simp]: "extends w w"
  by (simp add: extends_def)

lemma extends_trans: "extends w w1 \<Longrightarrow> extends w1 w2 \<Longrightarrow> extends w w2"
  by (auto simp: extends_def)

lemma extends_sys [simp]: "teardown_call c \<Longrightarrow> extends w (snd (sys env c w))"
  by (simp add: extends_def sys_def Let_def)

lemma extends_warn [simp]: "extends w (warn d w)"
  by (simp add: extends_def warn_def)

lemma sigaction_None [simp]: "sigaction s None w = w"
  by (simp add: sigaction_def)

lemma calls_sys: "calls (snd (sys env c w)) = calls w @ [c]"
  by (simp add: sys_def calls_def Let_def)

lemma extends_kill_pids: "extends w (kill_pids env ps sig w)"
proof (induction ps arbitrary: w)
  case Nil
  show ?case by simp
next
  case (Cons p ps)
  have "extends w (snd (sys env (Kill p sig) w))" by simp
  from extends_trans [OF this Cons.IH] show ?case by simp
qed

lemma extends_procfile_killall: "extends w (procfile_killall env file sig w)"
proof -
  obtain fp w1 where o: "sys env (Fopen file ''r'') w = (fp, w1)"
    by (cases "sys env (Fopen file ''r'') w")
  let ?w2 = "kill_pids env (scanned fp) sig w1"
  have 1: "extends w w1"
    using extends_sys [of "Fopen file ''r''" w env] o by simp
  have 2: "extends w1 ?w2" by (rule extends_kill_pids)
  have 3: "extends ?w2 (snd (sys env (Fclose file) ?w2))" by simp
  from 1 2 3 have "extends w (snd (sys env (Fclose file) ?w2))"
    by (blast intro: extends_trans)
  with 1 o show ?thesis
    by (simp add: procfile_killall_def)
qed

lemma extends_procfile_has_processes: "extends w (snd (procfile_has_processes env file w))"
proof -
  obtain fp w1 where o: "sys env (Fopen file ''r'') w = (fp, w1)"
    by (cases "sys env (Fopen file ''r'') w")
  have 1: "extends w w1"
    using extends_sys [of "Fopen file ''r''" w env] o by simp
  have 2: "extends w1 (snd (sys env (Fclose file) w1))" by simp
  from 1 2 have "extends w (snd (sys env (Fclose file) w1))"
    by (rule extends_trans)
  with 1 o show ?thesis
    by (cases "sys env (Fclose file) w1") (simp add: procfile_has_processes_def)
qed

lemma extends_kill_children: "extends w (kill_children env cs sig w)"
proof (induction cs arbitrary: w)
  case Nil
  show ?case by simp
next
  case (Cons c cs)
  show ?case
    using extends_trans [OF extends_procfile_killall Cons.IH] by simp
qed

lemma extends_child_processes_exist: "extends w (snd (child_processes_exist env cs w))"
proof (induction cs arbitrary: w)
  case Nil
  show ?case by simp
next
  case (Cons c cs)
  show ?case
    using extends_procfile_has_processes [of w env "procfile c"]
      extends_trans [OF extends_procfile_has_processes Cons.IH, of w env "procfile c"]
    by (auto split: prod.splits bool.splits)
qed

lemma extends_kill_retry: "extends w (snd (kill_retry env cs sleep n w))"
proof (induction n arbitrary: w)
  case 0
  show ?case by simp
next
  case (Suc n)
  obtain b w1 where c: "child_processes_exist env cs w = (b, w1)"
    by (cases "child_processes_exist env cs w")
  have e1: "extends w w1"
    using extends_child_processes_exist [of w env cs] c by simp
  show ?case
  proof (cases b)
    case False
    with c e1 show ?thesis by simp
  next
    case True
    let ?w2 = "kill_children env cs SIGKILL w1"
    let ?w3 = "if sleep then snd (sys env (Usleep 1000) ?w2) else ?w2"
    have "extends ?w2 ?w3" by simp
    with extends_kill_children [of w1 env cs SIGKILL] have "extends w1 ?w3"
      by (rule extends_trans)
    with e1 have "extends w ?w3" by (rule extends_trans)
    then have "extends w (snd (kill_retry env cs sleep n ?w3))"
      using Suc.IH by (rule extends_trans)
    with c True show ?thesis by (simp add: Let_def)
  qed
qed

lemma extends_destroy_cgroups: "extends w (destroy_cgroups env cs w)"
proof (induction cs arbitrary: w)
  case Nil
  show ?case by simp
next
  case (Cons c cs)
  have "extends w (snd (sys env (Rmdir (path c)) w))" by simp
  from extends_trans [OF this Cons.IH] show ?case by simp
qed

lemma extends_cleanup: "extends w (cleanup env g w)"
proof -
  obtain r w5 where k1: "kill_retry env (controllers g) True 10 w = (r, w5)"
    by (cases "kill_retry env (controllers g) True 10 w")
  obtain r2 w' where k2: "kill_retry env (controllers g) False 10 w5 = (r2, w')"
    by (cases "kill_retry env (controllers g) False 10 w5")
  have e5: "extends w w5"
    using extends_kill_retry [of w env "controllers g" True 10] k1 by simp
  have e': "extends w5 w'"
    using extends_kill_retry [of w5 env "controllers g" False 10] k2 by simp
  let ?w6 = "if r = 0 then (if r2 = 0 then warn FailedToKill w' else w') else w5"
  have "extends w5 ?w6"
    using e' by (auto intro: extends_trans)
  with e5 have "extends w ?w6" by (rule extends_trans)
  then have "extends w (destroy_cgroups env (controllers g) ?w6)"
    using extends_destroy_cgroups by (rule extends_trans)
  then show ?thesis
    using k1 k2 by (auto simp: cleanup_def Let_def split: if_splits)
qed

lemma cleanup_calls: "\<exists>cs. calls (cleanup env g w) = calls w @ cs"
  using extends_cleanup [of w env g] by (auto simp: extends_def calls_def)

lemma kill_retry_numeral:
  "kill_retry env cs sleep (numeral k) w =
     (case child_processes_exist env cs w of
        (False, w1) \<Rightarrow> (numeral k, w1)
      | (True, w1) \<Rightarrow>
          (let w2 = kill_children env cs SIGKILL w1;
               w3 = (if sleep then snd (sys env (Usleep 1000) w2) else w2)
           in kill_retry env cs sleep (pred_numeral k) w3))"
  by (simp only: numeral_eq_Suc [of k] kill_retry.simps)

lemma example_fds:
  "main_fds example_globals (0, 0, 0) =
     (\<lparr>fd = 0, events = POLLHUP, revents = 0\<rparr>,
      \<lparr>fd = 5, events = POLLIN, revents = 0\<rparr>,
      \<lparr>fd = 1, events = POLLHUP, revents = 0\<rparr>)"
  by (simp add: main_fds_def example_globals_def initial_globals_def
        STDIN_FILENO_def STDOUT_FILENO_def)

lemma example_stdin_quiet:
  "revents (polled [(5, POLLIN)] 2 0 \<lparr>fd = 0, events = POLLHUP, revents = 0\<rparr>) = 0"
  by (simp add: polled_def cond_of_def)

lemma example_relay_readable:
  "revents (polled [(5, POLLIN)] 2 1 \<lparr>fd = 5, events = POLLIN, revents = 0\<rparr>) \<noteq> 0"
  by (simp add: polled_def cond_of_def POLLIN_def POLLERR_def POLLHUP_def POLLNVAL_def)

lemma example_turn_answers:
  "answers (relay_env SIGCHLD wr) (trace initial_world)
     [(Poll [\<lparr>fd = 0, events = POLLHUP, revents = 0\<rparr>,
             \<lparr>fd = 5, events = POLLIN, revents = 0\<rparr>,
             \<lparr>fd = 1, events = POLLHUP, revents = 0\<rparr>] 2 (- 1), Conds [(5, POLLIN)]),
      (Read (fst (signal_pipe example_globals)), Ret SIGCHLD),
      (Wait, wr)]"
  by (simp add: relay_env_def)

subsection \<open>Hangup of the standard input\<close>

lemma kill_child_nicely_calls:
  "calls (kill_child_nicely env g child w) =
     calls w @ [Kill child SIGTERM]
       @ (if 0 < brutal_kill_wait_us g then [Usleep (brutal_kill_wait_us g)] else [])
       @ [Kill child SIGKILL]"
  by (simp add: kill_child_nicely_def Let_def calls_sys)

lemma loop_body_stdin_hangup:
  assumes "env (trace w) (Poll [f0, f1, f2] 2 (- 1)) = Conds cs"
    and "revents (polled cs 2 0 f0) \<noteq> 0"
  shows "loop_body env g junk_status pid (f0, f1, f2) w =
           (Break, kill_child_nicely env g pid (snd (sys env (Poll [f0, f1, f2] 2 (- 1)) w)))"
  using assms
  by (simp add: loop_body_def poll_def sys_def Let_def polled_beyond take_2_of_3)

text \<open>
  Claim C2, as stated, fails: when the standard input of the supervisor is hung up
  while the child (process 42) runs, the supervisor sends \<open>SIGTERM\<close>, sleeps the delay,
  sends \<open>SIGKILL\<close>, and then exits with status 0, which is \<open>EXIT_SUCCESS\<close> and not the
  failure status.
\<close>

theorem stdin_hangup_exit_status_counterexample:
  "fst (main_loop (Suc 0) (hangup_env STDIN_FILENO) example_globals 0 42
          (main_fds example_globals (0, 0, 0)) initial_world) = Exited 0
   \<and> fst (main_loop (Suc 0) (hangup_env STDIN_FILENO) example_globals 0 42
          (main_fds example_globals (0, 0, 0)) initial_world) \<noteq> Exited EXIT_FAILURE
   \<and> calls (snd (main_loop (Suc 0) (hangup_env STDIN_FILENO) example_globals 0 42
          (main_fds example_globals (0, 0, 0)) initial_world)) =
       [Poll [\<lparr>fd = 0, events = POLLHUP, revents = 0\<rparr>,
              \<lparr>fd = 5, events = POLLIN, revents = 0\<rparr>,
              \<lparr>fd = 1, events = POLLHUP, revents = 0\<rparr>] 2 (- 1),
        Kill 42 SIGTERM, Usleep 1000, Kill 42 SIGKILL]"
  apply (simp only: example_fds)
  apply (simp add: loop_body_def poll_def sys_def Let_def polled_def cond_of_def take_2_of_3
        hangup_env_def STDIN_FILENO_def POLLHUP_def POLLERR_def POLLNVAL_def POLLIN_def
        kill_child_nicely_def exit_proc_def cleanup_def example_globals_def initial_globals_def
        initial_world_def calls_def EXIT_SUCCESS_def EXIT_FAILURE_def kill_retry_numeral)
  done

text \<open>
  Claim C2, amended. Whenever \<open>poll\<close> reports an event on the standard input, the
  supervisor sends \<open>SIGTERM\<close> to the child, sleeps the configured delay when it is
  positive, sends \<open>SIGKILL\<close>, leaves the loop and, after the teardown, exits with
  \<open>EXIT_SUCCESS\<close>.
\<close>

theorem stdin_hangup_kills_and_exits_success:
  assumes "env (trace w) (Poll [f0, f1, f2] 2 (- 1)) = Conds cs"
    and "revents (polled cs 2 0 f0) \<noteq> 0"
  shows "fst (main_loop (Suc fuel) env g junk_status pid (f0, f1, f2) w) = Exited EXIT_SUCCESS
       \<and> (\<exists>teardown.
             calls (snd (main_loop (Suc fuel) env g junk_status pid (f0, f1, f2) w)) =
               calls w @ [Poll [f0, f1, f2] 2 (- 1), Kill pid SIGTERM]
                 @ (if 0 < brutal_kill_wait_us g then [Usleep (brutal_kill_wait_us g)] else [])
                 @ [Kill pid SIGKILL] @ teardown)"
proof -
  let ?w1 = "snd (sys env (Poll [f0, f1, f2] 2 (- 1)) w)"
  let ?wk = "kill_child_nicely env g pid ?w1"
  have m: "main_loop (Suc fuel) env g junk_status pid (f0, f1, f2) w
             = (Exited EXIT_SUCCESS, cleanup env g ?wk)"
    using assms loop_body_stdin_hangup [of env w f0 f1 f2 cs g junk_status pid]
    by (simp add: exit_proc_def)
  obtain td where "calls (cleanup env g ?wk) = calls ?wk @ td"
    using cleanup_calls by blast
  then have "calls (cleanup env g ?wk) =
               calls w @ [Poll [f0, f1, f2] 2 (- 1), Kill pid SIGTERM]
                 @ (if 0 < brutal_kill_wait_us g then [Usleep (brutal_kill_wait_us g)] else [])
                 @ [Kill pid SIGKILL] @ td"
    by (simp add: kill_child_nicely_calls calls_sys)
  with m show ?thesis by auto
qed

theorem stdin_hangup_kills_and_exits_success_witness:
  "fst (main_loop (Suc (Suc 0)) (hangup_env 0) (example_globals\<lparr>brutal_kill_wait_us := 0\<rparr>) 0 7
          (main_fds example_globals (0, 0, 0)) initial_world) = Exited EXIT_SUCCESS
   \<and> (\<exists>teardown.
         calls (snd (main_loop (Suc (Suc 0)) (hangup_env 0)
                  (example_globals\<lparr>brutal_kill_wait_us := 0\<rparr>) 0 7
                  (main_fds example_globals (0, 0, 0)) initial_world)) =
           [Poll [\<lparr>fd = 0, events = POLLHUP, revents = 0\<rparr>,
                  \<lparr>fd = 5, events = POLLIN, revents = 0\<rparr>,
                  \<lparr>fd = 1, events = POLLHUP, revents = 0\<rparr>] 2 (- 1),
            Kill 7 SIGTERM, Kill 7 SIGKILL] @ teardown)"
proof -
  have p: "hangup_env 0 (trace initial_world)
             (Poll [\<lparr>fd = 0, events = POLLHUP, revents = 0\<rparr>,
                    \<lparr>fd = 5, events = POLLIN, revents = 0\<rparr>,
                    \<lparr>fd = 1, events = POLLHUP, revents = 0\<rparr>] 2 (- 1)) = Conds [(0, POLLHUP)]"
    by (simp add: hangup_env_def)
  have h: "revents (polled [(0, POLLHUP)] 2 0 \<lparr>fd = 0, events = POLLHUP, revents = 0\<rparr>) \<noteq> 0"
    by (simp add: polled_def cond_of_def POLLHUP_def POLLERR_def POLLNVAL_def)
  show ?thesis
    using p h stdin_hangup_kills_and_exits_success
        [where env = "hangup_env 0" and w = initial_world and cs = "[(0, POLLHUP)]"
           and ?f0.0 = "\<lparr>fd = 0, events = POLLHUP, revents = 0\<rparr>"
           and ?f1.0 = "\<lparr>fd = 5, events = POLLIN, revents = 0\<rparr>"
           and ?f2.0 = "\<lparr>fd = 1, events = POLLHUP, revents = 0\<rparr>"
           and fuel = "Suc 0" and g = "example_globals\<lparr>brutal_kill_wait_us := 0\<rparr>"
           and junk_status = 0 and pid = 7]
    by (simp add: example_fds calls_def initial_world_def)
qed

subsection \<open>Hangup of the standard output\<close>

lemma poll_skips_third_entry:
  "poll env (f0, f1, f2) 2 timeout w = ((n, (g0, g1, g2)), w1) \<Longrightarrow> g2 = f2"
  by (auto simp: poll_def Let_def polled_beyond split: prod.splits sysres.splits if_splits)

text \<open>
  Claim C1 at its failing input: the standard output (descriptor 1) is hung up, the
  standard input and the relay are quiet. \<open>poll\<close> is asked to look at two entries of the
  array, so the hangup is not seen: the supervisor stays blocked in \<open>poll\<close> and sends no
  signal to the child.
\<close>

theorem stdout_hangup_not_observed:
  "main_loop (Suc fuel) (hangup_env STDOUT_FILENO) example_globals 0 42
          (main_fds example_globals (0, 0, 0)) initial_world
     = (BlockedInPoll,
        initial_world\<lparr>trace :=
          [(Poll [\<lparr>fd = 0, events = POLLHUP, revents = 0\<rparr>,
                  \<lparr>fd = 5, events = POLLIN, revents = 0\<rparr>,
                  \<lparr>fd = 1, events = POLLHUP, revents = 0\<rparr>] 2 (- 1),
            Conds [(1, POLLHUP)])]\<rparr>)"
  apply (simp only: example_fds)
  apply (simp add: loop_body_def poll_def sys_def Let_def polled_def cond_of_def take_2_of_3
        hangup_env_def STDOUT_FILENO_def POLLHUP_def POLLERR_def POLLNVAL_def POLLIN_def
        initial_world_def)
  done

subsection \<open>Reaping after a child-termination signal\<close>

text \<open>
  Claim C8, as stated, fails on the words ``non-blocking'': the reap is the blocking
  call \<open>wait\<close>. When the relay delivers \<open>SIGCHLD\<close> and no child has finished (the
  signal also reports a stopped child), \<open>wait\<close> does not return: after \<open>poll\<close>, \<open>read\<close>
  and \<open>wait\<close> the supervisor is blocked in \<open>wait\<close>, whatever fuel the loop is given, and
  is not back in \<open>poll\<close>.
\<close>

theorem sigchld_reap_blocks_counterexample:
  "fst (main_loop (Suc (Suc (Suc 0))) (relay_env SIGCHLD Never) example_globals 0 42
          (main_fds example_globals (0, 0, 0)) initial_world) = BlockedInWait
   \<and> calls (snd (main_loop (Suc (Suc (Suc 0))) (relay_env SIGCHLD Never) example_globals 0 42
          (main_fds example_globals (0, 0, 0)) initial_world)) =
       [Poll [\<lparr>fd = 0, events = POLLHUP, revents = 0\<rparr>,
              \<lparr>fd = 5, events = POLLIN, revents = 0\<rparr>,
              \<lparr>fd = 1, events = POLLHUP, revents = 0\<rparr>] 2 (- 1),
        Read 5, Wait]"
proof -
  have pipe: "fst (signal_pipe example_globals) = 5"
    by (simp add: example_globals_def initial_globals_def)
  have "loop_body (relay_env SIGCHLD Never) example_globals 0 42
          (main_fds example_globals (0, 0, 0)) initial_world
        = (Stop BlockedInWait, after_wait initial_world (example_turn Never) Never)"
    using loop_body_sigchld [OF example_turn_answers example_stdin_quiet example_relay_readable,
        of Never 0 42]
    by (simp add: example_fds example_turn_def pipe)
  then have "main_loop (Suc (Suc (Suc 0))) (relay_env SIGCHLD Never) example_globals 0 42
          (main_fds example_globals (0, 0, 0)) initial_world
        = (BlockedInWait, after_wait initial_world (example_turn Never) Never)"
    by simp
  then show ?thesis
    by (simp add: after_wait_def example_turn_def calls_def initial_world_def)
qed

text \<open>
  Claim C8, amended. In the turn of the loop that reads a child-termination signal from
  the relay, the supervisor calls \<open>wait\<close> once, after \<open>poll\<close> and \<open>read\<close>, and \<open>wait\<close>
  blocks: when it does not return, the supervisor stays in it. When it returns a
  process id that is not the tracked child's (or fails), nothing else is done: the
  loop goes on with the array as \<open>poll\<close> left it. When it returns the tracked child's
  id, the process exits through the teardown.
\<close>

theorem sigchld_one_blocking_reap:
  assumes turn: "answers env (trace w)
           [(Poll [f0, f1, f2] 2 (- 1), Conds cs),
            (Read (fst (signal_pipe g)), Ret SIGCHLD),
            (Wait, wr)]"
    and stdin: "revents (polled cs 2 0 f0) = 0"
    and relay: "revents (polled cs 2 1 f1) \<noteq> 0"
    and stale: "revents f2 = 0"
    and w3: "w3 = after_wait w [(Poll [f0, f1, f2] 2 (- 1), Conds cs),
                               (Read (fst (signal_pipe g)), Ret SIGCHLD),
                               (Wait, wr)] wr"
  shows "(wr = Never \<longrightarrow>
            main_loop (Suc fuel) env g junk_status pid (f0, f1, f2) w = (BlockedInWait, w3))
       \<and> (wr \<noteq> Never \<and> ret wr \<noteq> pid \<longrightarrow>
            loop_body env g junk_status pid (f0, f1, f2) w
              = (Continue (polled cs 2 0 f0, polled cs 2 1 f1, f2), w3)
          \<and> main_loop (Suc fuel) env g junk_status pid (f0, f1, f2) w
              = main_loop fuel env g junk_status pid (polled cs 2 0 f0, polled cs 2 1 f1, f2) w3)
       \<and> (wr \<noteq> Never \<and> ret wr = pid \<longrightarrow>
            (\<exists>status. main_loop (Suc fuel) env g junk_status pid (f0, f1, f2) w
                        = (Exited status, cleanup env g w3)))"
proof -
  note body = loop_body_sigchld [OF turn stdin relay stale, of junk_status pid, folded w3]
  have never: "wr = Never \<Longrightarrow>
      main_loop (Suc fuel) env g junk_status pid (f0, f1, f2) w = (BlockedInWait, w3)"
    using body by (simp add: Let_def)
  have other: "wr \<noteq> Never \<Longrightarrow> ret wr \<noteq> pid \<Longrightarrow>
      loop_body env g junk_status pid (f0, f1, f2) w
        = (Continue (polled cs 2 0 f0, polled cs 2 1 f1, f2), w3)"
    using body by (simp add: Let_def)
  have tracked: "wr \<noteq> Never \<Longrightarrow> ret wr = pid \<Longrightarrow>
      \<exists>status. main_loop (Suc fuel) env g junk_status pid (f0, f1, f2) w
                  = (Exited status, cleanup env g w3)"
    using body by (simp add: Let_def)
  from never other tracked show ?thesis by simp
qed

theorem sigchld_one_blocking_reap_witness:
  "main_loop (Suc 0) (relay_env SIGCHLD Never) example_globals 0 42
       (main_fds example_globals (0, 0, 0)) initial_world
     = (BlockedInWait, after_wait initial_world (example_turn Never) Never)
   \<and> main_loop (Suc 0) (relay_env SIGCHLD (Waited 99 0)) example_globals 0 42
       (main_fds example_globals (0, 0, 0)) initial_world
     = (Running, after_wait initial_world (example_turn (Waited 99 0)) (Waited 99 0))
   \<and> main_loop (Suc 0) (relay_env SIGCHLD (Fail ECHILD)) example_globals 0 42
       (main_fds example_globals (0, 0, 0)) initial_world
     = (Running, after_wait initial_world (example_turn (Fail ECHILD)) (Fail ECHILD))
   \<and> (\<exists>status.
         main_loop (Suc 0) (relay_env SIGCHLD (Waited 42 0)) example_globals 0 42
           (main_fds example_globals (0, 0, 0)) initial_world
         = (Exited status,
            cleanup (relay_env SIGCHLD (Waited 42 0)) example_globals
              (after_wait initial_world (example_turn (Waited 42 0)) (Waited 42 0))))"
proof -
  have pipe: "fst (signal_pipe example_globals) = 5"
    by (simp add: example_globals_def initial_globals_def)
  have inst: "(wr = Never \<longrightarrow>
            main_loop (Suc 0) (relay_env SIGCHLD wr) example_globals 0 42
              (main_fds example_globals (0, 0, 0)) initial_world
            = (BlockedInWait, after_wait initial_world (example_turn wr) wr))
       \<and> (wr \<noteq> Never \<and> ret wr \<noteq> 42 \<longrightarrow>
            main_loop (Suc 0) (relay_env SIGCHLD wr) example_globals 0 42
              (main_fds example_globals (0, 0, 0)) initial_world
            = (Running, after_wait initial_world (example_turn wr) wr))
       \<and> (wr \<noteq> Never \<and> ret wr = 42 \<longrightarrow>
            (\<exists>status. main_loop (Suc 0) (relay_env SIGCHLD wr) example_globals 0 42
                          (main_fds example_globals (0, 0, 0)) initial_world
                        = (Exited status, cleanup (relay_env SIGCHLD wr) example_globals
                             (after_wait initial_world (example_turn wr) wr))))" for wr
    using sigchld_one_blocking_reap
      [OF example_turn_answers example_stdin_quiet example_relay_readable _ refl,
       where wr = wr and junk_status = 0 and pid = 42 and fuel = 0]
    unfolding example_fds pipe example_turn_def
    by simp
  show ?thesis
    using inst [of Never] inst [of "Waited 99 0"] inst [of "Fail ECHILD"] inst [of "Waited 42 0"]
    by simp
qed

subsection \<open>The signal dispositions during teardown\<close>

lemma cleanup_keeps_dispositions: "sigdisp (cleanup env g w) = sigdisp w"
  using extends_cleanup [of w env g] by (simp add: extends_def)

lemma main_run_term:
  "main (Suc 0) (run_env SIGTERM) initial_globals (0, 0, 0) 0 [''sleep'', ''60''] initial_world
     = (Exited EXIT_FAILURE,
        \<lparr>trace = [(Pipe, Fds 5 6), (Fork, Ret 42),
                  (Poll [\<lparr>fd = 0, events = POLLHUP, revents = 0\<rparr>,
                         \<lparr>fd = 5, events = POLLIN, revents = 0\<rparr>,
                         \<lparr>fd = 1, events = POLLHUP, revents = 0\<rparr>] 2 (- 1),
                   Conds [(5, POLLIN)]),
                  (Read 5, Ret SIGTERM)],
         errno = 0, stderr = [],
         sigdisp = (\<lambda>_. SIG_DFL)(SIGCHLD := Handler, SIGINT := Handler,
                                   SIGQUIT := Handler, SIGTERM := Handler)\<rparr>)"
  by (simp add: main_def run_env_def initial_globals_def initial_world_def sys_def Let_def
        finish_controller_init_def sigaction_def fork_exec_def main_fds_def
        STDIN_FILENO_def STDOUT_FILENO_def loop_body_def poll_def polled_def cond_of_def
        take_2_of_3 POLLIN_def POLLHUP_def POLLERR_def POLLNVAL_def
        SIGCHLD_def SIGTERM_def SIGINT_def SIGQUIT_def exit_proc_def cleanup_def
        kill_retry_numeral)

text \<open>
  Claim C5 at a failing input: a run with no controller in which the supervisor reads
  \<open>SIGTERM\<close> from the relay and exits. \<open>cleanup\<close> calls \<open>sigaction\<close> with a null action,
  which changes nothing: after the teardown the four signals still have the handler,
  and a signal delivered then runs it, which writes to the relay.
\<close>

theorem teardown_leaves_handlers_installed:
  "fst (main (Suc 0) (run_env SIGTERM) initial_globals (0, 0, 0) 0 [''sleep'', ''60'']
          initial_world) = Exited EXIT_FAILURE
   \<and> map (sigdisp (snd (main (Suc 0) (run_env SIGTERM) initial_globals (0, 0, 0) 0
                          [''sleep'', ''60''] initial_world)))
         [SIGCHLD, SIGINT, SIGQUIT, SIGTERM] = [Handler, Handler, Handler, Handler]
   \<and> calls (deliver (run_env SIGTERM) example_globals SIGTERM
              (snd (main (Suc 0) (run_env SIGTERM) initial_globals (0, 0, 0) 0
                      [''sleep'', ''60''] initial_world)))
       = calls (snd (main (Suc 0) (run_env SIGTERM) initial_globals (0, 0, 0) 0
                      [''sleep'', ''60''] initial_world)) @ [Write 6 SIGTERM]"
  apply (simp only: main_run_term)
  apply (simp add: deliver_def sigchild_handler_def example_globals_def initial_globals_def
        sys_def Let_def calls_def run_env_def SIGCHLD_def SIGTERM_def SIGINT_def SIGQUIT_def)
  done

subsection \<open>Teardown when the cgroups are already gone\<close>

lemma stderr_sys: "stderr (snd (sys env c w)) = stderr w"
  by (simp add: sys_def Let_def)

lemma child_processes_exist_absent:
  assumes "\<forall>c\<in>set cs. \<forall>h. is_null (env h (Fopen (procfile c) ''r''))"
  shows "fst (child_processes_exist env cs w) = False
       \<and> calls (snd (child_processes_exist env cs w))
           = calls w @ map (\<lambda>c. Fopen (procfile c) ''r'') cs
       \<and> stderr (snd (child_processes_exist env cs w)) = stderr w"
  using assms
proof (induction cs arbitrary: w)
  case Nil
  show ?case by simp
next
  case (Cons c cs)
  let ?w1 = "snd (sys env (Fopen (procfile c) ''r'') w)"
  have null: "is_null (env (trace w) (Fopen (procfile c) ''r''))"
    using Cons.prems by simp
  then have has: "procfile_has_processes env (procfile c) w = (False, ?w1)"
    by (simp add: procfile_has_processes_def sys_def Let_def)
  have rest: "\<forall>c\<in>set cs. \<forall>h. is_null (env h (Fopen (procfile c) ''r''))"
    using Cons.prems by simp
  show ?case
    using Cons.IH [OF rest, of ?w1] has
    by (simp add: calls_sys stderr_sys)
qed

lemma kill_retry_absent:
  assumes "\<forall>c\<in>set cs. \<forall>h. is_null (env h (Fopen (procfile c) ''r''))"
  shows "kill_retry env cs sleep (Suc n) w = (Suc n, snd (child_processes_exist env cs w))"
  using child_processes_exist_absent [OF assms, of w]
  by (cases "child_processes_exist env cs w") simp

lemma destroy_cgroups_calls:
  "calls (destroy_cgroups env cs w) = calls w @ map (\<lambda>c. Rmdir (path c)) cs
   \<and> stderr (destroy_cgroups env cs w) = stderr w"
  by (induction cs arbitrary: w) (simp_all add: calls_sys stderr_sys)

lemma cleanup_absent:
  assumes "\<forall>c\<in>set (controllers g). \<forall>h. is_null (env h (Fopen (procfile c) ''r''))"
  shows "calls (cleanup env g w) = calls w @ probes g @ removals g
       \<and> stderr (cleanup env g w) = stderr w"
proof -
  have "kill_retry env (controllers g) True 10 w
          = (10, snd (child_processes_exist env (controllers g) w))"
    using kill_retry_absent [OF assms, of True 9 w] by simp
  then have "cleanup env g w
          = destroy_cgroups env (controllers g) (snd (child_processes_exist env (controllers g) w))"
    by (simp add: cleanup_def)
  then show ?thesis
    using child_processes_exist_absent [OF assms, of w]
    by (simp add: destroy_cgroups_calls probes_def removals_def)
qed

text \<open>
  Claim C9. Teardown when every membership file is gone (so that opening it fails,
  whatever else the system answers, also to \<open>rmdir\<close>): \<open>cleanup\<close> tries to open each
  membership file once, sends no signal, sleeps never, prints nothing, calls \<open>rmdir\<close> for
  every controller whatever the answers to the earlier ones, and returns. A second
  teardown after the first does the same again and still prints nothing, and the
  status given to \<open>exit\<close> is the status the process ends with.
\<close>

theorem teardown_when_already_gone:
  assumes gone: "\<forall>c\<in>set (controllers g). \<forall>h. is_null (env h (Fopen (procfile c) ''r''))"
  shows "calls (cleanup env g w) = calls w @ probes g @ removals g
       \<and> stderr (cleanup env g w) = stderr w
       \<and> calls (cleanup env g (cleanup env g w))
           = calls w @ probes g @ removals g @ probes g @ removals g
       \<and> stderr (cleanup env g (cleanup env g w)) = stderr w
       \<and> exit_proc env g status (cleanup env g w)
           = (Exited status, cleanup env g (cleanup env g w))"
  using cleanup_absent [OF gone, of w] cleanup_absent [OF gone, of "cleanup env g w"]
  by (simp add: exit_proc_def)

theorem teardown_when_already_gone_witness:
  "calls (cleanup gone_env cpu_globals initial_world)
     = [Fopen (Some ''/sys/fs/cgroup/cpu/box/cgroup.procs'') ''r'',
        Rmdir (Some ''/sys/fs/cgroup/cpu/box'')]
   \<and> stderr (cleanup gone_env cpu_globals initial_world) = []
   \<and> calls (cleanup gone_env cpu_globals (cleanup gone_env cpu_globals initial_world))
     = [Fopen (Some ''/sys/fs/cgroup/cpu/box/cgroup.procs'') ''r'',
        Rmdir (Some ''/sys/fs/cgroup/cpu/box''),
        Fopen (Some ''/sys/fs/cgroup/cpu/box/cgroup.procs'') ''r'',
        Rmdir (Some ''/sys/fs/cgroup/cpu/box'')]
   \<and> stderr (cleanup gone_env cpu_globals (cleanup gone_env cpu_globals initial_world)) = []
   \<and> fst (exit_proc gone_env cpu_globals 3 (cleanup gone_env cpu_globals initial_world))
     = Exited 3"
proof -
  have gone: "\<forall>c\<in>set (controllers cpu_globals).
                \<forall>h. is_null (gone_env h (Fopen (procfile c) ''r''))"
    by (simp add: gone_env_def)
  show ?thesis
    using teardown_when_already_gone [OF gone, of initial_world 3]
    by (simp add: probes_def removals_def cpu_globals_def initial_globals_def
          calls_def initial_world_def)
qed

subsection \<open>The child between \<open>fork\<close> and \<open>execvp\<close>\<close>

lemma trace_sys: "trace (snd (sys env c w)) = trace w @ [(c, env (trace w) c)]"
  by (simp add: sys_def Let_def)

lemma fst_sys: "fst (sys env c w) = env (trace w) c"
  by (simp add: sys_def Let_def)

text \<open>
  In the supervisor the general teardown is the supervisor's: with no own process id
  among the members, nothing ends the caller and the functions return what
  \<open>kill_pids\<close>, \<open>procfile_killall\<close>, \<open>kill_children\<close>, \<open>kill_retry\<close>, \<open>cleanup\<close>, \<open>exit_proc\<close> and
  \<open>fatal\<close> return.
\<close>

lemma kill_pids_as_supervisor:
  "kill_pids_as None env pids sig w = Inr (kill_pids env pids sig w)"
  by (induction pids arbitrary: w) simp_all

lemma procfile_killall_as_supervisor:
  "procfile_killall_as None env file sig w = Inr (procfile_killall env file sig w)"
  by (simp add: procfile_killall_as_def procfile_killall_def kill_pids_as_supervisor Let_def
        case_prod_beta)

lemma kill_children_as_supervisor:
  "kill_children_as None env cs sig w = Inr (kill_children env cs sig w)"
  by (induction cs arbitrary: w) (simp_all add: procfile_killall_as_supervisor)

lemma kill_retry_as_supervisor:
  "kill_retry_as None env cs sleep n w = Inr (kill_retry env cs sleep n w)"
  by (induction n arbitrary: w)
     (simp_all add: kill_children_as_supervisor Let_def split: prod.splits bool.splits)

lemma cleanup_as_supervisor: "cleanup_as None env g w = Inr (cleanup env g w)"
  by (simp add: cleanup_as_def cleanup_def kill_retry_as_supervisor Let_def case_prod_beta)

lemma exit_proc_as_supervisor: "exit_proc_as None env g status w = exit_proc env g status w"
  by (simp add: exit_proc_as_def exit_proc_def cleanup_as_supervisor)

lemma fatal_as_supervisor: "fatal_as None env g d w = fatal env g d w"
  by (cases d) (simp_all add: fatal_as_def fatal_def exit_proc_as_supervisor)

text \<open>
  The caller's own id in a membership file ends the caller at the first \<open>SIGKILL\<close> that
  reaches it: the signals before it are sent, the ones after it are not.
\<close>

lemma kill_pids_as_self:
  assumes "self \<notin> set before"
  shows "kill_pids_as (Some self) env (before @ self # rest) SIGKILL w
           = Inl (let w1 = kill_pids env before SIGKILL w
                  in w1\<lparr>trace := trace w1 @ [(Kill self SIGKILL, Never)]\<rparr>)"
  using assms by (induction before arbitrary: w) (simp_all add: Let_def)

text \<open>
  \<open>move_pid_to_cgroups\<close> does not look at what \<open>fclose\<close> returns: when the file opens and
  \<open>fprintf\<close> returns no negative number, the attachment to the one cgroup is reported
  as done, whatever \<open>fclose\<close> answers.
\<close>

lemma move_pid_fclose_not_tested:
  assumes "\<not> is_null (env (trace w) (Fopen (procfile c) ''w''))"
    and "0 \<le> ret (fst (sys env (Fprintf_d (procfile c) pid)
                          (snd (sys env (Fopen (procfile c) ''w'') w))))"
  shows "fst (move_pid_to_cgroups env [c] pid w) = Inr ()"
  using assms by (simp add: Let_def case_prod_beta fst_sys)

text \<open>
  Claim C4 at a failing input: one cgroup \<open>/sys/fs/cgroup/cpu/box\<close>, group 100 and user
  1000 configured, the program \<open>sh\<close>. In the child the membership file opens and
  \<open>fprintf\<close> puts the two characters of the process id 43 into the buffer of the stream;
  the kernel refuses the write when \<open>fclose\<close> flushes the buffer (\<open>ENOSPC\<close>), so the child
  is not attached. The code does not test \<open>fclose\<close>: the child changes its group, then
  its user, and becomes the program, outside the cgroup, with no message. The claim's
  order holds in this run (attachment, \<open>setgid\<close>, \<open>setuid\<close>, \<open>execvp\<close>); its last part, that
  a failed attachment keeps the child from the program, does not.
\<close>

theorem failed_attachment_reaches_program:
  "fork_exec
     (child_env [(Fprintf_d (Some ''/sys/fs/cgroup/cpu/box/cgroup.procs'') 43, Ret 2),
                 (Fclose (Some ''/sys/fs/cgroup/cpu/box/cgroup.procs''), Fail ENOSPC)])
     drop_globals ''sh'' [''sh''] initial_world
   = (Inl (Execed ''sh'' [''sh'']),
      initial_world
        \<lparr>trace :=
           [(Fork, Ret 0),
            (Getpid, Ret 43),
            (Fopen (Some ''/sys/fs/cgroup/cpu/box/cgroup.procs'') ''w'', Ret 0),
            (Fprintf_d (Some ''/sys/fs/cgroup/cpu/box/cgroup.procs'') 43, Ret 2),
            (Fclose (Some ''/sys/fs/cgroup/cpu/box/cgroup.procs''), Fail ENOSPC),
            (Setgid 100, Ret 0),
            (Setuid 1000, Ret 0),
            (Execvp ''sh'' [''sh''], Ret 0)],
         errno := ENOSPC\<rparr>)"
  by (simp add: fork_exec_def child_env_def drop_globals_def initial_globals_def sys_def
        Let_def initial_world_def)

lemma kill_retry_as_numeral:
  "kill_retry_as self env cs sleep (numeral k) w =
     (case child_processes_exist env cs w of
        (False, w1) \<Rightarrow> Inr (numeral k, w1)
      | (True, w1) \<Rightarrow>
          (case kill_children_as self env cs SIGKILL w1 of
             Inl dead \<Rightarrow> Inl dead
           | Inr w2 \<Rightarrow>
               (let w3 = (if sleep then snd (sys env (Usleep 1000) w2) else w2)
                in kill_retry_as self env cs sleep (pred_numeral k) w3)))"
  by (simp only: numeral_eq_Suc [of k] kill_retry_as.simps)

text \<open>
  The other failures of the child. When the attachment succeeded and \<open>setuid\<close> is refused,
  the child prints the message and calls \<open>exit(EXIT_FAILURE)\<close>; the inherited \<open>cleanup\<close>
  reads the child's own id, 43, from the membership file and sends \<open>SIGKILL\<close> to it: the
  child does not reach the program, and it ends by the signal, before the status
  \<open>EXIT_FAILURE\<close> is delivered and before any cgroup is removed.
\<close>

lemma refused_setuid_child_kills_itself:
  "fork_exec (child_env [(Setuid 1000, Fail EPERM)]) drop_globals ''sh'' [''sh''] initial_world
   = (Inl (Killed SIGKILL),
      initial_world
        \<lparr>trace :=
           [(Fork, Ret 0),
            (Getpid, Ret 43),
            (Fopen (Some ''/sys/fs/cgroup/cpu/box/cgroup.procs'') ''w'', Ret 0),
            (Fprintf_d (Some ''/sys/fs/cgroup/cpu/box/cgroup.procs'') 43, Ret 0),
            (Fclose (Some ''/sys/fs/cgroup/cpu/box/cgroup.procs''), Ret 0),
            (Setgid 100, Ret 0),
            (Setuid 1000, Fail EPERM),
            (Fopen (Some ''/sys/fs/cgroup/cpu/box/cgroup.procs'') ''r'', Pids [43]),
            (Fclose (Some ''/sys/fs/cgroup/cpu/box/cgroup.procs''), Ret 0),
            (Fopen (Some ''/sys/fs/cgroup/cpu/box/cgroup.procs'') ''r'', Pids [43]),
            (Kill 43 SIGKILL, Never)],
         errno := EPERM,
         stderr := [SetuidFailed 1000 EPERM]\<rparr>)"
  by (simp add: fork_exec_def child_env_def drop_globals_def initial_globals_def sys_def
        Let_def initial_world_def fatal_as_def exit_proc_as_def cleanup_as_def warn_def
        sigaction_def procfile_killall_as_def procfile_has_processes_def
        kill_retry_as_numeral)

subsection \<open>Creating the cgroups\<close>

lemma errno_sys_Fail: "env (trace w) c = Fail e \<Longrightarrow> errno (snd (sys env c w)) = e"
  by (simp add: sys_def Let_def)

lemma cuts_end [simp]: "cuts p (length p) = []"
  by (simp add: cuts_def)

lemma cuts_step:
  "i < length p \<Longrightarrow>
     cuts p i = (if p ! i = CHR ''/'' then [take i p] else []) @ cuts p (Suc i)"
  by (simp add: cuts_def upt_conv_Cons)

lemma mkdir_p_loop_events:
  assumes "i \<le> length p"
  shows "\<exists>es fin.
           trace (snd (mkdir_p_loop env p i rc le w)) = trace w @ es @ [(Mkdir p, fin)]
         \<and> map fst es = map Mkdir (cuts p i)
         \<and> fst (mkdir_p_loop env p i rc le w) = Some (rc0 fin)
         \<and> (\<forall>e. fin = Fail e \<longrightarrow> errno (snd (mkdir_p_loop env p i rc le w)) = e)
         \<and> stderr (snd (mkdir_p_loop env p i rc le w)) = stderr w
         \<and> sigdisp (snd (mkdir_p_loop env p i rc le w)) = sigdisp w"
  using assms
proof (induction "length p - i" arbitrary: i rc le w)
  case 0
  then have i: "i = length p" by simp
  let ?fin = "env (trace w) (Mkdir p)"
  have "mkdir_p_loop env p i rc le w
          = (Some (rc0 ?fin),
             (snd (sys env (Mkdir p) w))
               \<lparr>errno := (if rc0 ?fin < 0 then errno (snd (sys env (Mkdir p) w)) else le)\<rparr>)"
    using i by (subst mkdir_p_loop.simps) (simp add: Let_def case_prod_beta fst_sys)
  then show ?case
    using i
    by (intro exI [of _ "[]"] exI [of _ ?fin]) (auto simp: trace_sys stderr_sys sys_def Let_def)
next
  case (Suc n)
  then have i: "i < length p" and n: "n = length p - Suc i" and le': "Suc i \<le> length p"
    by simp_all
  show ?case
  proof (cases "p ! i = CHR ''/''")
    case True
    let ?r = "env (trace w) (Mkdir (take i p))"
    let ?w1 = "snd (sys env (Mkdir (take i p)) w)"
    let ?le1 = "if rc0 ?r < 0 then errno ?w1 else le"
    have step: "mkdir_p_loop env p i rc le w = mkdir_p_loop env p (Suc i) (rc0 ?r) ?le1 ?w1"
      using i True by (subst mkdir_p_loop.simps) (simp add: Let_def case_prod_beta fst_sys)
    obtain es fin where ih:
        "trace (snd (mkdir_p_loop env p (Suc i) (rc0 ?r) ?le1 ?w1))
           = trace ?w1 @ es @ [(Mkdir p, fin)]"
        "map fst es = map Mkdir (cuts p (Suc i))"
        "fst (mkdir_p_loop env p (Suc i) (rc0 ?r) ?le1 ?w1) = Some (rc0 fin)"
        "\<forall>e. fin = Fail e \<longrightarrow> errno (snd (mkdir_p_loop env p (Suc i) (rc0 ?r) ?le1 ?w1)) = e"
        "stderr (snd (mkdir_p_loop env p (Suc i) (rc0 ?r) ?le1 ?w1)) = stderr ?w1"
        "sigdisp (snd (mkdir_p_loop env p (Suc i) (rc0 ?r) ?le1 ?w1)) = sigdisp ?w1"
      using Suc.hyps(1) [OF n le', of "rc0 ?r" ?le1 ?w1] by blast
    show ?thesis
      unfolding step using ih i True
      by (intro exI [of _ "(Mkdir (take i p), ?r) # es"] exI [of _ fin])
         (simp add: trace_sys stderr_sys cuts_step sys_def Let_def)
  next
    case False
    have step: "mkdir_p_loop env p i rc le w = mkdir_p_loop env p (Suc i) rc le w"
      using i False by (subst mkdir_p_loop.simps) simp
    show ?thesis
      unfolding step using Suc.hyps(1) [OF n le', of rc le w] i False
      by (simp add: cuts_step)
  qed
qed
text \<open>
  Claim C6. For a controller whose path is the mount point, its name and the path
  fragment, \<open>mkdir_p\<close> tries the path cut before each \<open>/\<close> of the fragment and then the
  whole path, and \<open>create_cgroups\<close> decides on the answer to that last \<open>mkdir\<close> alone: a
  failure with \<open>EEXIST\<close> is the error ``already exists'', a failure with any other
  \<open>errno\<close> is the error ``couldn't create'', and otherwise the next controllers are
  created, whatever the answers to the earlier \<open>mkdir\<close> were.
\<close>

theorem final_mkdir_decides:
  assumes p: "path c = Some p"
    and form: "p = CGROUP_MOUNT_PATH @ ''/'' @ name c @ ''/'' @ frag"
    and w1: "w1 = snd (mkdir_p env p (length CGROUP_MOUNT_PATH + 1 + length (name c) + 1) w)"
  shows "\<exists>es fin.
           new_events w w1 = es @ [(Mkdir p, fin)]
         \<and> map fst es = map Mkdir (cuts p (length CGROUP_MOUNT_PATH + 1 + length (name c) + 1))
         \<and> create_cgroups env (c # rest) w =
             (case fin of
                Fail e \<Rightarrow> (Inl (if e = EEXIST then AlreadyExists p else CouldntCreate p e), w1)
              | _ \<Rightarrow> create_cgroups env rest w1)"
proof -
  let ?i = "length CGROUP_MOUNT_PATH + 1 + length (name c) + 1"
  have i: "?i \<le> length p"
    using form by simp
  obtain es fin where ev:
      "trace (snd (mkdir_p_loop env p ?i 0 0 w)) = trace w @ es @ [(Mkdir p, fin)]"
      "map fst es = map Mkdir (cuts p ?i)"
      "fst (mkdir_p_loop env p ?i 0 0 w) = Some (rc0 fin)"
      "\<forall>e. fin = Fail e \<longrightarrow> errno (snd (mkdir_p_loop env p ?i 0 0 w)) = e"
    using mkdir_p_loop_events [OF i, of env 0 0 w] by blast
  have m: "mkdir_p env p ?i w = (Some (rc0 fin), w1)"
    using ev(3) w1 by (simp add: mkdir_p_def prod_eq_iff)
  have "new_events w w1 = es @ [(Mkdir p, fin)]"
    using ev(1) w1 by (simp add: new_events_def mkdir_p_def)
  moreover have "create_cgroups env (c # rest) w =
             (case fin of
                Fail e \<Rightarrow> (Inl (if e = EEXIST then AlreadyExists p else CouldntCreate p e), w1)
              | _ \<Rightarrow> create_cgroups env rest w1)"
  proof (cases fin)
    case (Fail e)
    then have "errno w1 = e"
      using ev(4) w1 by (simp add: mkdir_p_def)
    with Fail p m show ?thesis
      by (simp del: One_nat_def)
  qed (use p m in \<open>simp_all del: One_nat_def\<close>)
  ultimately show ?thesis
    using ev(2) by blast
qed

theorem final_mkdir_decides_witness:
  "(\<exists>es fin.
      new_events initial_world
          (snd (mkdir_p (mkdir_env [(''/sys/fs/cgroup/cpu/a'', Fail EEXIST)])
                  ''/sys/fs/cgroup/cpu/a/b'' 19 initial_world))
        = es @ [(Mkdir ''/sys/fs/cgroup/cpu/a/b'', fin)]
      \<and> map fst es = map Mkdir (cuts ''/sys/fs/cgroup/cpu/a/b'' 19)
      \<and> create_cgroups (mkdir_env [(''/sys/fs/cgroup/cpu/a'', Fail EEXIST)])
            [nested_controller] initial_world
          = (case fin of
               Fail e \<Rightarrow>
                 (Inl (if e = EEXIST then AlreadyExists ''/sys/fs/cgroup/cpu/a/b''
                       else CouldntCreate ''/sys/fs/cgroup/cpu/a/b'' e),
                  snd (mkdir_p (mkdir_env [(''/sys/fs/cgroup/cpu/a'', Fail EEXIST)])
                         ''/sys/fs/cgroup/cpu/a/b'' 19 initial_world))
             | _ \<Rightarrow>
                 create_cgroups (mkdir_env [(''/sys/fs/cgroup/cpu/a'', Fail EEXIST)]) []
                   (snd (mkdir_p (mkdir_env [(''/sys/fs/cgroup/cpu/a'', Fail EEXIST)])
                           ''/sys/fs/cgroup/cpu/a/b'' 19 initial_world))))
   \<and> cuts ''/sys/fs/cgroup/cpu/a/b'' 19 = [''/sys/fs/cgroup/cpu/a'']
   \<and> fst (create_cgroups (mkdir_env [(''/sys/fs/cgroup/cpu/a'', Fail EEXIST)])
            [nested_controller] initial_world) = Inr ()
   \<and> fst (create_cgroups (mkdir_env [(''/sys/fs/cgroup/cpu/a/b'', Fail EEXIST)])
            [nested_controller] initial_world) = Inl (AlreadyExists ''/sys/fs/cgroup/cpu/a/b'')
   \<and> fst (create_cgroups (mkdir_env [(''/sys/fs/cgroup/cpu/a/b'', Fail EACCES)])
            [nested_controller] initial_world)
        = Inl (CouldntCreate ''/sys/fs/cgroup/cpu/a/b'' EACCES)"
proof -
  have p: "path nested_controller = Some ''/sys/fs/cgroup/cpu/a/b''"
    by (simp add: nested_controller_def)
  have form: "''/sys/fs/cgroup/cpu/a/b''
                = CGROUP_MOUNT_PATH @ ''/'' @ name nested_controller @ ''/'' @ ''a/b''"
    by (simp add: nested_controller_def CGROUP_MOUNT_PATH_def)
  have i: "length CGROUP_MOUNT_PATH + 1 + length (name nested_controller) + 1 = 19"
    by (simp add: nested_controller_def CGROUP_MOUNT_PATH_def)
  note inst = final_mkdir_decides [OF p form refl,
      where env = "mkdir_env [(''/sys/fs/cgroup/cpu/a'', Fail EEXIST)]"
        and w = initial_world and rest = "[]", unfolded i]
  have c: "cuts ''/sys/fs/cgroup/cpu/a/b'' 19 = [''/sys/fs/cgroup/cpu/a'']"
    by code_simp
  have r1: "fst (create_cgroups (mkdir_env [(''/sys/fs/cgroup/cpu/a'', Fail EEXIST)])
            [nested_controller] initial_world) = Inr ()"
    by code_simp
  have r2: "fst (create_cgroups (mkdir_env [(''/sys/fs/cgroup/cpu/a/b'', Fail EEXIST)])
            [nested_controller] initial_world) = Inl (AlreadyExists ''/sys/fs/cgroup/cpu/a/b'')"
    by code_simp
  have r3: "fst (create_cgroups (mkdir_env [(''/sys/fs/cgroup/cpu/a/b'', Fail EACCES)])
            [nested_controller] initial_world)
        = Inl (CouldntCreate ''/sys/fs/cgroup/cpu/a/b'' EACCES)"
    by code_simp
  from inst c r1 r2 r3 show ?thesis by blast
qed

subsection \<open>Writing the settings\<close>

lemma sint_small: "n < 2 ^ 31 \<Longrightarrow> sint (word_of_nat n :: 32 word) = int n"
  by (simp add: signed_of_nat signed_take_bit_int_eq_self)

text \<open>
  Once \<open>fopen\<close> has succeeded, \<open>write_file\<close> returns the count of \<open>fwrite\<close>, which is never
  negative: no failure of the write itself makes \<open>write_file\<close> return an error.
\<close>

lemma write_file_nonnegative:
  assumes "\<not> is_null (env (trace w) (Fopen (Some file) ''w''))"
    and "length v < 2 ^ 31"
  shows "0 \<le> fst (write_file env file v w)"
proof -
  let ?r = "fst (sys env (Fwrite (Some file) v) (snd (sys env (Fopen (Some file) ''w'') w)))"
  have "fwrite_count ?r v \<le> length v"
    by (cases ?r) simp_all
  with assms(2) have "fwrite_count ?r v < 2 ^ 31" by simp
  then have "sint (word_of_nat (fwrite_count ?r v) :: 32 word) = int (fwrite_count ?r v)"
    by (rule sint_small)
  with assms(1) show ?thesis
    by (simp add: write_file_def Let_def case_prod_beta fst_sys)
qed

text \<open>
  Claim C7 at a failing input: the setting \<open>memory.limit_in_bytes\<close> with the value
  \<open>lots\<close>; the file opens, the kernel refuses the value and \<open>fwrite\<close> writes nothing.
  \<open>write_file\<close> returns the count 0, which is not negative, so
  \<open>update_cgroup_settings\<close> reports no error and the run goes on.
\<close>

theorem write_failure_not_detected:
  "update_cgroup_settings (fwrite_env (Fail EINVAL)) [memory_controller] initial_world
     = (Inr (),
        initial_world
          \<lparr>trace :=
             [(Fopen (Some ''/sys/fs/cgroup/memory/box/memory.limit_in_bytes'') ''w'', Ret 0),
              (Fwrite (Some ''/sys/fs/cgroup/memory/box/memory.limit_in_bytes'') ''lots'',
               Fail EINVAL),
              (Fclose (Some ''/sys/fs/cgroup/memory/box/memory.limit_in_bytes''), Ret 0)],
           errno := EINVAL\<rparr>)"
  by (simp add: memory_controller_def fwrite_env_def write_file_def sys_def Let_def
        initial_world_def)

subsection \<open>The store holds the declarations in reverse order\<close>

lemma reversed_snoc: "reversed (ds @ [(n, kvs)]) = (n, rev kvs) # reversed ds"
  by (simp add: reversed_def)

lemma process_option_store:
  assumes "process_option opt g = Inr g'" and "store g = reversed ds"
  shows "store g' = reversed (add_decl ds opt)"
proof (cases opt)
  case (OptP p)
  with assms show ?thesis
    by (auto simp: store_def split: if_splits)
next
  case (OptC n)
  with assms show ?thesis
    by (auto simp: store_def add_controller_def reversed_snoc)
next
  case (OptS optarg)
  with assms obtain c rest where cs: "controllers g = c # rest"
    by (cases "controllers g") auto
  with assms(2) have "ds \<noteq> []"
    by (auto simp: store_def reversed_def)
  then obtain n kvs before where ds: "ds = before @ [(n, kvs)]"
    by (cases ds rule: rev_cases) auto
  with assms(2) cs have c: "name c = n" "map (\<lambda>v. (key v, val v)) (vars c) = rev kvs"
      "map (\<lambda>c. (name c, map (\<lambda>v. (key v, val v)) (vars c))) rest = reversed before"
    by (simp_all add: store_def reversed_snoc)
  have "g' = g\<lparr>controllers :=
                 add_controller_setting c (fst (setting_of optarg)) (snd (setting_of optarg))
                   # rest\<rparr>"
    using assms(1) OptS cs by (auto simp: setting_of_def split: if_splits)
  then have "store g' = (n, setting_of optarg # rev kvs) # reversed before"
    using c by (simp add: store_def add_controller_setting_def)
  also have "\<dots> = reversed (add_decl ds (OptS optarg))"
    using ds by (simp add: reversed_snoc)
  finally show ?thesis
    using OptS by simp
qed

lemma process_options_store:
  assumes "process_options opts g = Inr g'" and "store g = reversed ds"
  shows "store g' = reversed (foldl add_decl ds opts)"
  using assms
proof (induction opts arbitrary: g ds)
  case Nil
  then show ?case by simp
next
  case (Cons opt opts)
  then obtain g1 where g1: "process_option opt g = Inr g1" "process_options opts g1 = Inr g'"
    by (auto split: sum.splits)
  from process_option_store [OF g1(1) Cons.prems(2)]
  have "store g1 = reversed (add_decl ds opt)" .
  from Cons.IH [OF g1(2) this] show ?case by simp
qed

lemma store_initial: "store initial_globals = reversed []"
  by (simp add: store_def reversed_def initial_globals_def)

lemma store_finish: "store (finish_controller_init g) = store g"
  by (simp add: store_def finish_controller_init_def comp_def)

subsection \<open>Every operation goes through the store from its head\<close>

text \<open>A controller as \<open>finish_controller_init\<close> leaves it, for a path fragment.\<close>

lemma finish_controller_paths:
  assumes "c \<in> set (controllers (finish_controller_init g))"
  shows "path c = Some (cgroup_dir (fmt_s (cgroup_path g)) (name c))
       \<and> procfile c = Some (cgroup_dir (fmt_s (cgroup_path g)) (name c) @ ''/cgroup.procs'')"
  using assms by (auto simp: finish_controller_init_def cgroup_dir_def)

lemma visit_store:
  assumes "\<And>c. c \<in> set (controllers g)
             \<Longrightarrow> F c = G (name c, map (\<lambda>v. (key v, val v)) (vars c))"
  shows "map F (controllers g) = map G (store g)"
  using assms by (simp add: store_def)

lemma kill_pids_calls:
  "calls (kill_pids env ps sig w) = calls w @ map (\<lambda>p. Kill p sig) ps"
  by (induction ps arbitrary: w) (simp_all add: calls_sys)

lemma procfile_killall_opens:
  "filter is_open (calls (procfile_killall env file sig w))
     = filter is_open (calls w) @ [Fopen file ''r'']"
  by (simp add: procfile_killall_def Let_def case_prod_beta calls_sys kill_pids_calls
        filter_False)

lemma kill_children_opens:
  "filter is_open (calls (kill_children env cs sig w))
     = filter is_open (calls w) @ map (\<lambda>c. Fopen (procfile c) ''r'') cs"
  by (induction cs arbitrary: w) (simp_all add: procfile_killall_opens)

lemma move_pid_calls:
  "fst (move_pid_to_cgroups env cs pid w) = Inr ()
   \<Longrightarrow> calls (snd (move_pid_to_cgroups env cs pid w))
         = calls w @ concat (map (\<lambda>c. [Fopen (procfile c) ''w'', Fprintf_d (procfile c) pid,
                                          Fclose (procfile c)]) cs)"
proof (induction cs arbitrary: w)
  case Nil
  show ?case by simp
next
  case (Cons c cs)
  let ?w3 = "snd (sys env (Fclose (procfile c))
                (snd (sys env (Fprintf_d (procfile c) pid)
                  (snd (sys env (Fopen (procfile c) ''w'') w)))))"
  from Cons.prems have step:
    "move_pid_to_cgroups env (c # cs) pid w = move_pid_to_cgroups env cs pid ?w3"
    by (simp add: Let_def case_prod_beta split: if_splits)
  with Cons.prems have "fst (move_pid_to_cgroups env cs pid ?w3) = Inr ()" by simp
  from Cons.IH [OF this] step show ?case
    by (simp add: calls_sys)
qed

lemma write_file_calls:
  "0 \<le> fst (write_file env file v w)
   \<Longrightarrow> calls (snd (write_file env file v w))
         = calls w @ [Fopen (Some file) ''w'', Fwrite (Some file) v, Fclose (Some file)]"
  by (simp add: write_file_def Let_def case_prod_beta calls_sys split: if_splits)

lemma write_vars_calls:
  "fst (write_vars env c vs w) = Inr ()
   \<Longrightarrow> calls (snd (write_vars env c vs w))
         = calls w @ concat (map (\<lambda>v. [Fopen (Some (fmt_s (path c) @ ''/'' @ key v)) ''w'',
                                          Fwrite (Some (fmt_s (path c) @ ''/'' @ key v)) (val v),
                                          Fclose (Some (fmt_s (path c) @ ''/'' @ key v))]) vs)"
proof (induction vs arbitrary: w)
  case Nil
  show ?case by simp
next
  case (Cons v vs)
  let ?f = "fmt_s (path c) @ ''/'' @ key v"
  let ?w1 = "snd (write_file env ?f (val v) w)"
  from Cons.prems have ok: "0 \<le> fst (write_file env ?f (val v) w)"
    and step: "write_vars env c (v # vs) w = write_vars env c vs ?w1"
    by (simp_all add: Let_def case_prod_beta split: if_splits)
  with Cons.prems have "fst (write_vars env c vs ?w1) = Inr ()" by simp
  from Cons.IH [OF this] step write_file_calls [OF ok] show ?case
    by simp
qed

lemma update_cgroup_settings_calls:
  "fst (update_cgroup_settings env cs w) = Inr ()
   \<Longrightarrow> calls (snd (update_cgroup_settings env cs w))
         = calls w @ concat (map (\<lambda>c. concat (map (\<lambda>v.
               [Fopen (Some (fmt_s (path c) @ ''/'' @ key v)) ''w'',
                Fwrite (Some (fmt_s (path c) @ ''/'' @ key v)) (val v),
                Fclose (Some (fmt_s (path c) @ ''/'' @ key v))]) (vars c))) cs)"
proof (induction cs arbitrary: w)
  case Nil
  show ?case by simp
next
  case (Cons c cs)
  let ?w1 = "snd (write_vars env c (vars c) w)"
  from Cons.prems have ok: "fst (write_vars env c (vars c) w) = Inr ()"
    and step: "update_cgroup_settings env (c # cs) w = update_cgroup_settings env cs ?w1"
    by (auto split: prod.splits sum.splits)
  with Cons.prems have "fst (update_cgroup_settings env cs ?w1) = Inr ()" by simp
  from Cons.IH [OF this] step write_vars_calls [OF ok] show ?case
    by simp
qed

lemma mkdir_p_calls:
  assumes "i \<le> length p"
  shows "calls (snd (mkdir_p env p i w)) = calls w @ map Mkdir (segments p i)"
proof -
  obtain es fin where
      "trace (snd (mkdir_p_loop env p i 0 0 w)) = trace w @ es @ [(Mkdir p, fin)]"
      "map fst es = map Mkdir (cuts p i)"
    using mkdir_p_loop_events [OF assms, of env 0 0 w] by blast
  then show ?thesis
    by (simp add: mkdir_p_def calls_def segments_def)
qed

lemma create_cgroups_calls:
  assumes "\<forall>c\<in>set cs. path c = Some (cgroup_dir frag (name c))"
    and "fst (create_cgroups env cs w) = Inr ()"
  shows "calls (snd (create_cgroups env cs w))
           = calls w @ concat (map (\<lambda>c. mkdir_calls frag (name c, [])) cs)"
  using assms
proof (induction cs arbitrary: w)
  case Nil
  show ?case by simp
next
  case (Cons c cs)
  let ?p = "cgroup_dir frag (name c)"
  let ?i = "length CGROUP_MOUNT_PATH + 1 + length (name c) + 1"
  let ?w1 = "snd (mkdir_p env ?p ?i w)"
  have p: "path c = Some ?p" using Cons.prems(1) by simp
  have i: "?i \<le> length ?p" by (simp add: cgroup_dir_def)
  from Cons.prems(2) p have step: "create_cgroups env (c # cs) w = create_cgroups env cs ?w1"
    by (auto simp del: One_nat_def split: prod.splits option.splits if_splits)
  with Cons.prems have "fst (create_cgroups env cs ?w1) = Inr ()"
      "\<forall>c\<in>set cs. path c = Some (cgroup_dir frag (name c))"
    by simp_all
  from Cons.IH [OF this(2) this(1)] step mkdir_p_calls [OF i, of env w] show ?case
    by (simp add: mkdir_calls_def)
qed

lemma mkdir_calls_fst: "mkdir_calls frag (n, kvs) = mkdir_calls frag (n, [])"
  by (simp add: mkdir_calls_def)

text \<open>
  Claim C10. After any sequence of options that is accepted, the store holds the
  controllers in the reverse of the order of declaration, each with its settings in the
  reverse of the order of declaration, and every operation goes through it in that
  order: \<open>create_cgroups\<close>, \<open>update_cgroup_settings\<close> and \<open>move_pid_to_cgroups\<close> (when they
  succeed; they stop at the first failure) make the calls for each controller in turn,
  \<open>kill_children\<close> opens the membership files in that order, and \<open>destroy_cgroups\<close>
  removes the directories in that order.
\<close>

theorem iteration_in_reverse_declaration_order:
  assumes opts: "process_options opts initial_globals = Inr g0"
    and g: "g = finish_controller_init g0"
    and frag: "frag = fmt_s (cgroup_path g0)"
    and D: "D = reversed (declared opts)"
  shows "store g = D
       \<and> (fst (create_cgroups env (controllers g) w) = Inr () \<longrightarrow>
            calls (snd (create_cgroups env (controllers g) w))
              = calls w @ concat (map (mkdir_calls frag) D))
       \<and> (fst (update_cgroup_settings env (controllers g) w) = Inr () \<longrightarrow>
            calls (snd (update_cgroup_settings env (controllers g) w))
              = calls w @ concat (map (setting_calls frag) D))
       \<and> (fst (move_pid_to_cgroups env (controllers g) pid w) = Inr () \<longrightarrow>
            calls (snd (move_pid_to_cgroups env (controllers g) pid w))
              = calls w @ concat (map (attach_calls frag pid) D))
       \<and> filter is_open (calls (kill_children env (controllers g) sig w))
            = filter is_open (calls w)
                @ map (\<lambda>d. Fopen (Some (cgroup_dir frag (fst d) @ ''/cgroup.procs'')) ''r'') D
       \<and> calls (destroy_cgroups env (controllers g) w)
            = calls w @ map (\<lambda>d. Rmdir (Some (cgroup_dir frag (fst d)))) D"
proof -
  have st: "store g = D"
    using process_options_store [OF opts store_initial] g D
    by (simp add: store_finish declared_def)
  have paths: "\<And>c. c \<in> set (controllers g) \<Longrightarrow>
      path c = Some (cgroup_dir frag (name c))
      \<and> procfile c = Some (cgroup_dir frag (name c) @ ''/cgroup.procs'')"
    using finish_controller_paths [of _ g0] g frag by simp
  have mk: "map (\<lambda>c. mkdir_calls frag (name c, [])) (controllers g)
              = map (mkdir_calls frag) D"
    unfolding st [symmetric]
    by (rule visit_store) (simp add: mkdir_calls_fst [of frag _ "map _ _"])
  have se: "map (\<lambda>c. concat (map (\<lambda>v.
               [Fopen (Some (fmt_s (path c) @ ''/'' @ key v)) ''w'',
                Fwrite (Some (fmt_s (path c) @ ''/'' @ key v)) (val v),
                Fclose (Some (fmt_s (path c) @ ''/'' @ key v))]) (vars c))) (controllers g)
              = map (setting_calls frag) D"
    unfolding st [symmetric]
    by (rule visit_store) (simp add: paths setting_calls_def comp_def)
  have at: "map (\<lambda>c. [Fopen (procfile c) ''w'', Fprintf_d (procfile c) pid,
                       Fclose (procfile c)]) (controllers g)
              = map (attach_calls frag pid) D"
    unfolding st [symmetric]
    by (rule visit_store) (simp add: paths attach_calls_def)
  have ki: "map (\<lambda>c. Fopen (procfile c) ''r'') (controllers g)
              = map (\<lambda>d. Fopen (Some (cgroup_dir frag (fst d) @ ''/cgroup.procs'')) ''r'') D"
    unfolding st [symmetric]
    by (rule visit_store) (simp add: paths)
  have de: "map (\<lambda>c. Rmdir (path c)) (controllers g)
              = map (\<lambda>d. Rmdir (Some (cgroup_dir frag (fst d)))) D"
    unfolding st [symmetric]
    by (rule visit_store) (simp add: paths)
  have wf: "\<forall>c\<in>set (controllers g). path c = Some (cgroup_dir frag (name c))"
    using paths by simp
  note c2 = create_cgroups_calls [OF wf, of env w, unfolded mk]
  note u2 = update_cgroup_settings_calls [of env "controllers g" w, unfolded se]
  note m2 = move_pid_calls [of env "controllers g" pid w, unfolded at]
  note k2 = kill_children_opens [of env "controllers g" sig w, unfolded ki]
  note d2 = destroy_cgroups_calls [of env "controllers g" w, unfolded de]
  from st c2 u2 m2 k2 d2 show ?thesis by blast
qed

theorem iteration_in_reverse_declaration_order_witness:
  "process_options example_options initial_globals = Inr example_parsed
   \<and> reversed (declared example_options)
       = [(''memory'', [(''memory.swappiness'', ''0''), (''memory.limit_in_bytes'', ''1000'')]),
          (''cpu'', [(''cpu.shares'', ''512'')])]
   \<and> store (finish_controller_init example_parsed) = reversed (declared example_options)
   \<and> calls (snd (create_cgroups ok_env (controllers (finish_controller_init example_parsed))
                    initial_world))
       = calls initial_world
           @ concat (map (mkdir_calls ''box'') (reversed (declared example_options)))
   \<and> calls (snd (update_cgroup_settings ok_env
                    (controllers (finish_controller_init example_parsed)) initial_world))
       = calls initial_world
           @ concat (map (setting_calls ''box'') (reversed (declared example_options)))
   \<and> calls (snd (move_pid_to_cgroups ok_env
                    (controllers (finish_controller_init example_parsed)) 43 initial_world))
       = calls initial_world
           @ concat (map (attach_calls ''box'' 43) (reversed (declared example_options)))
   \<and> filter is_open (calls (kill_children ok_env
                    (controllers (finish_controller_init example_parsed)) SIGKILL initial_world))
       = [Fopen (Some ''/sys/fs/cgroup/memory/box/cgroup.procs'') ''r'',
          Fopen (Some ''/sys/fs/cgroup/cpu/box/cgroup.procs'') ''r'']
   \<and> calls (destroy_cgroups ok_env (controllers (finish_controller_init example_parsed))
               initial_world)
       = [Rmdir (Some ''/sys/fs/cgroup/memory/box''), Rmdir (Some ''/sys/fs/cgroup/cpu/box'')]
   \<and> calls (snd (update_cgroup_settings ok_env
                    (controllers (finish_controller_init example_parsed)) initial_world))
       = [Fopen (Some ''/sys/fs/cgroup/memory/box/memory.swappiness'') ''w'',
          Fwrite (Some ''/sys/fs/cgroup/memory/box/memory.swappiness'') ''0'',
          Fclose (Some ''/sys/fs/cgroup/memory/box/memory.swappiness''),
          Fopen (Some ''/sys/fs/cgroup/memory/box/memory.limit_in_bytes'') ''w'',
          Fwrite (Some ''/sys/fs/cgroup/memory/box/memory.limit_in_bytes'') ''1000'',
          Fclose (Some ''/sys/fs/cgroup/memory/box/memory.limit_in_bytes''),
          Fopen (Some ''/sys/fs/cgroup/cpu/box/cpu.shares'') ''w'',
          Fwrite (Some ''/sys/fs/cgroup/cpu/box/cpu.shares'') ''512'',
          Fclose (Some ''/sys/fs/cgroup/cpu/box/cpu.shares'')]"
proof -
  have opts: "process_options example_options initial_globals = Inr example_parsed"
    by (simp add: example_options_def example_parsed_def initial_globals_def
          add_controller_def add_controller_setting_def)
  have frag: "''box'' = fmt_s (cgroup_path example_parsed)"
    by (simp add: example_parsed_def)
  have D: "reversed (declared example_options)
       = [(''memory'', [(''memory.swappiness'', ''0''), (''memory.limit_in_bytes'', ''1000'')]),
          (''cpu'', [(''cpu.shares'', ''512'')])]"
    by (simp add: reversed_def declared_def example_options_def setting_of_def)
  have c: "fst (create_cgroups ok_env (controllers (finish_controller_init example_parsed))
                  initial_world) = Inr ()"
    by code_simp
  have u: "fst (update_cgroup_settings ok_env
                  (controllers (finish_controller_init example_parsed)) initial_world) = Inr ()"
    by code_simp
  have m: "fst (move_pid_to_cgroups ok_env
                  (controllers (finish_controller_init example_parsed)) 43 initial_world) = Inr ()"
    by code_simp
  note inst = iteration_in_reverse_declaration_order [OF opts refl frag refl,
      where env = ok_env and w = initial_world and pid = 43 and sig = SIGKILL]
  have st: "store (finish_controller_init example_parsed) = reversed (declared example_options)"
    using inst by blast
  have cc: "calls (snd (create_cgroups ok_env (controllers (finish_controller_init example_parsed))
                    initial_world))
       = calls initial_world
           @ concat (map (mkdir_calls ''box'') (reversed (declared example_options)))"
    using inst c by blast
  have uu: "calls (snd (update_cgroup_settings ok_env
                    (controllers (finish_controller_init example_parsed)) initial_world))
       = calls initial_world
           @ concat (map (setting_calls ''box'') (reversed (declared example_options)))"
    using inst u by blast
  have mm: "calls (snd (move_pid_to_cgroups ok_env
                    (controllers (finish_controller_init example_parsed)) 43 initial_world))
       = calls initial_world
           @ concat (map (attach_calls ''box'' 43) (reversed (declared example_options)))"
    using inst m by blast
  have kk: "filter is_open (calls (kill_children ok_env
                    (controllers (finish_controller_init example_parsed)) SIGKILL initial_world))
       = [Fopen (Some ''/sys/fs/cgroup/memory/box/cgroup.procs'') ''r'',
          Fopen (Some ''/sys/fs/cgroup/cpu/box/cgroup.procs'') ''r'']"
    by code_simp
  have dd: "calls (destroy_cgroups ok_env (controllers (finish_controller_init example_parsed))
               initial_world)
       = [Rmdir (Some ''/sys/fs/cgroup/memory/box''), Rmdir (Some ''/sys/fs/cgroup/cpu/box'')]"
    by code_simp
  have ss: "calls (snd (update_cgroup_settings ok_env
                    (controllers (finish_controller_init example_parsed)) initial_world))
       = [Fopen (Some ''/sys/fs/cgroup/memory/box/memory.swappiness'') ''w'',
          Fwrite (Some ''/sys/fs/cgroup/memory/box/memory.swappiness'') ''0'',
          Fclose (Some ''/sys/fs/cgroup/memory/box/memory.swappiness''),
          Fopen (Some ''/sys/fs/cgroup/memory/box/memory.limit_in_bytes'') ''w'',
          Fwrite (Some ''/sys/fs/cgroup/memory/box/memory.limit_in_bytes'') ''1000'',
          Fclose (Some ''/sys/fs/cgroup/memory/box/memory.limit_in_bytes''),
          Fopen (Some ''/sys/fs/cgroup/cpu/box/cpu.shares'') ''w'',
          Fwrite (Some ''/sys/fs/cgroup/cpu/box/cpu.shares'') ''512'',
          Fclose (Some ''/sys/fs/cgroup/cpu/box/cpu.shares'')]"
    unfolding uu D
    by (simp add: setting_calls_def cgroup_dir_def CGROUP_MOUNT_PATH_def calls_def
          initial_world_def)
  from opts D st cc uu mm kk dd ss show ?thesis
    by (intro conjI)
qed

end
